theory Spec2Isabelle
  imports Complex_Main
begin

section \<open>Data model\<close>

text \<open>
  The notebook \<^verbatim>\<open>drug_detection.ipynb\<close> defines a character-level dataset
  (\<^verbatim>\<open>SmilesDataset\<close>) and a transformer classifier assembled from
  \<^verbatim>\<open>MultiHeadSelfAttention\<close>, \<^verbatim>\<open>FeedForwardNetwork\<close>,
  \<^verbatim>\<open>TransformerBlock\<close> and \<^verbatim>\<open>CustomTransformer\<close>.

  Conventions of the embedding:
  \<^item> a tensor of rank k is a k-fold nested list, outermost dimension first; a tensor that
    has a dimension of size 0 is the corresponding empty nesting;
  \<^item> tensor entries are real numbers: arithmetic is exact, so rounding and overflow of
    32-bit floats are outside the model. The one NaN the model has is the mean over an
    empty axis, in the pooled vector and the logits, where an entry is a \<open>real option\<close>
    and \<open>None\<close> is NaN;
  \<^item> Python integers are \<open>int\<close>; a Python string is a list of code points, each a
    number from 0 to 0x10FFFF;
  \<^item> every exception is a value \<open>Inl e\<close> of the result type \<open>error + 'a\<close>.
\<close>

datatype error =
  ZeroDivisionError   \<comment> \<open>Python integer division by zero\<close>
| IndexError          \<comment> \<open>list index or embedding index out of range\<close>
| RuntimeError        \<comment> \<open>torch: negative dimension, invalid view, shape mismatch, integer outside int64\<close>

type_synonym vec = "real list"
type_synonym mat = "real list list"
type_synonym tensor3 = "real list list list"
type_synonym tensor4 = "real list list list list"

text \<open>\<open>is_mat r c\<close> and \<open>is_tensor3 b s e\<close>: the nested list is a tensor of that shape.\<close>

definition is_mat :: "nat \<Rightarrow> nat \<Rightarrow> 'a list list \<Rightarrow> bool" where
  "is_mat r c M \<longleftrightarrow> length M = r \<and> (\<forall>row \<in> set M. length row = c)"

definition is_tensor3 :: "nat \<Rightarrow> nat \<Rightarrow> nat \<Rightarrow> 'a list list list \<Rightarrow> bool" where
  "is_tensor3 b s e x \<longleftrightarrow> length x = b \<and> (\<forall>xb \<in> set x. is_mat s e xb)"

text \<open>
  \<^verbatim>\<open>x.shape[1]\<close> and \<^verbatim>\<open>x.shape[2]\<close> read from the nesting. With no sample
  (batch size 0) the nesting records no further size; no sample is processed then.
\<close>

definition dim1 :: "'a list list \<Rightarrow> nat" where
  "dim1 x = (case x of [] \<Rightarrow> 0 | xb # _ \<Rightarrow> length xb)"

definition dim2 :: "'a list list list \<Rightarrow> nat" where
  "dim2 x = (case x of [] \<Rightarrow> 0 | xb # _ \<Rightarrow> dim1 xb)"

section \<open>SmilesDataset\<close>

text \<open>
  \<^verbatim>\<open>
  class SmilesDataset(Dataset):
      def __init__(self, smiles, labels, max_len=100):
          self.smiles = smiles
          self.labels = labels
          self.max_len = max_len
      def __len__(self):
          return len(self.smiles)
      def __getitem__(self, idx):
          # Pad SMILES string to max_len
          smile = self.smiles[idx]
          smile_padded = [ord(c) for c in smile] + [0] * (self.max_len - len(smile))
          return torch.tensor(smile_padded, dtype=torch.long), torch.tensor(self.labels[idx], dtype=torch.long)
  \<close>
\<close>

text \<open>
  A character of a Python string is a Unicode code point, and \<^verbatim>\<open>ord\<close> returns it.
  \<open>py_str\<close> writes a string of code points below 256 as a literal.
\<close>

typedef code_point = "{n :: nat. n < 1114112}"
  by (rule exI [of _ 0]) simp

type_synonym str = "code_point list"

definition ord :: "code_point \<Rightarrow> int" where
  "ord c = int (Rep_code_point c)"

definition py_str :: "string \<Rightarrow> str" where
  "py_str s = map (\<lambda>c. Abs_code_point (of_char c)) s"

record SmilesDataset =
  smiles :: "str list"
  labels :: "int list"
  max_len :: int

definition SmilesDataset_init :: "str list \<Rightarrow> int list \<Rightarrow> int \<Rightarrow> SmilesDataset" where
  "SmilesDataset_init sm lb ml = \<lparr>smiles = sm, labels = lb, max_len = ml\<rparr>"

text \<open>
  \<^verbatim>\<open>torch.tensor(v, dtype=torch.long)\<close> of a Python integer or list of integers: the
  values are stored as signed 64-bit integers, and a value outside their range raises
  \<open>RuntimeError\<close>.
\<close>

definition in_int64 :: "int \<Rightarrow> bool" where
  "in_int64 v \<longleftrightarrow> - (2 ^ 63) \<le> v \<and> v < 2 ^ 63"

definition tensor_long :: "int \<Rightarrow> error + int" where
  "tensor_long v = (if in_int64 v then Inr v else Inl RuntimeError)"

definition tensor_long_list :: "int list \<Rightarrow> error + int list" where
  "tensor_long_list vs = (if list_all in_int64 vs then Inr vs else Inl RuntimeError)"

text \<open>\<^verbatim>\<open>xs[i]\<close> of a Python list; \<open>i\<close> from \<open>-len(xs)\<close> to \<open>-1\<close> addresses from the end.\<close>

definition getitem_list :: "'a list \<Rightarrow> int \<Rightarrow> error + 'a" where
  "getitem_list xs i =
     (if 0 \<le> i \<and> i < int (length xs) then Inr (xs ! nat i)
      else if i < 0 \<and> - int (length xs) \<le> i then Inr (xs ! nat (int (length xs) + i))
      else Inl IndexError)"

text \<open>\<^verbatim>\<open>[0] * k\<close>: the list of k zeros, the empty list when \<open>k \<le> 0\<close>.\<close>

definition zeros_times :: "int \<Rightarrow> int list" where
  "zeros_times k = replicate (nat k) 0"

definition SmilesDataset_getitem :: "SmilesDataset \<Rightarrow> int \<Rightarrow> error + (int list \<times> int)" where
  "SmilesDataset_getitem d idx =
     (case getitem_list (smiles d) idx of
        Inl e \<Rightarrow> Inl e
      | Inr smile \<Rightarrow>
          (let smile_padded = map ord smile @ zeros_times (max_len d - int (length smile))
           in case tensor_long_list smile_padded of
                Inl e \<Rightarrow> Inl e
              | Inr tokens \<Rightarrow>
                  (case getitem_list (labels d) idx of
                     Inl e \<Rightarrow> Inl e
                   | Inr label \<Rightarrow>
                       (case tensor_long label of
                          Inl e \<Rightarrow> Inl e
                        | Inr lab \<Rightarrow> Inr (tokens, lab)))))"

definition SmilesDataset_len :: "SmilesDataset \<Rightarrow> int" where
  "SmilesDataset_len d = int (length (smiles d))"

section \<open>Library layers\<close>

text \<open>
  The layers of \<^verbatim>\<open>torch.nn\<close> that the notebook instantiates, with the meaning their
  documentation gives them. A constructor creates its parameters from an initialiser
  \<open>g\<close> (the random draws of the library, addressed by position) and raises
  \<open>RuntimeError\<close> for a negative size; a forward call raises \<open>RuntimeError\<close> when the
  last dimension of its input is not the size the layer was built for.
\<close>

type_synonym initialiser = "nat list \<Rightarrow> real"

definition sub :: "initialiser \<Rightarrow> nat \<Rightarrow> initialiser" where
  "sub g k = (\<lambda>p. g (k # p))"

definition dot :: "vec \<Rightarrow> vec \<Rightarrow> real" where
  "dot u v = sum_list (map2 (*) u v)"

text \<open>The check shared by the layers: every innermost vector has length \<open>n\<close>.\<close>

definition last_dim2 :: "nat \<Rightarrow> 'a list list \<Rightarrow> bool" where
  "last_dim2 n x \<longleftrightarrow> (\<forall>v \<in> set x. length v = n)"

definition last_dim3 :: "nat \<Rightarrow> 'a list list list \<Rightarrow> bool" where
  "last_dim3 n x \<longleftrightarrow> (\<forall>xb \<in> set x. last_dim2 n xb)"

subsection \<open>nn.Linear\<close>

text \<open>\<^verbatim>\<open>nn.Linear(n_in, n_out)\<close>: \<open>y = x W\<^sup>T + b\<close> with \<open>W\<close> of shape \<open>(n_out, n_in)\<close>.\<close>

record Linear =
  in_features :: nat
  out_features :: nat
  weight :: mat
  bias :: vec

definition Linear_init :: "initialiser \<Rightarrow> int \<Rightarrow> int \<Rightarrow> error + Linear" where
  "Linear_init g n_in n_out =
     (if n_in < 0 \<or> n_out < 0 then Inl RuntimeError
      else Inr \<lparr>in_features = nat n_in, out_features = nat n_out,
                weight = map (\<lambda>r. map (\<lambda>c. g [0, r, c]) [0..<nat n_in]) [0..<nat n_out],
                bias = map (\<lambda>r. g [1, r]) [0..<nat n_out]\<rparr>)"

definition linear_vec :: "Linear \<Rightarrow> vec \<Rightarrow> vec" where
  "linear_vec l v = map2 (\<lambda>w b. dot w v + b) (weight l) (bias l)"

text \<open>
  The layer on vectors that may hold NaN (\<open>None\<close>): a NaN entry of the input makes every
  product with it and so every entry of the output NaN.
\<close>

definition linear_vec_nan :: "Linear \<Rightarrow> real option list \<Rightarrow> real option list" where
  "linear_vec_nan l v =
     (if None \<in> set v then replicate (out_features l) None
      else map Some (linear_vec l (map the v)))"

definition Linear_forward2 ::
  "Linear \<Rightarrow> real option list list \<Rightarrow> error + real option list list" where
  "Linear_forward2 l x =
     (if last_dim2 (in_features l) x then Inr (map (linear_vec_nan l) x)
      else Inl RuntimeError)"

definition Linear_forward3 :: "Linear \<Rightarrow> tensor3 \<Rightarrow> error + tensor3" where
  "Linear_forward3 l x =
     (if last_dim3 (in_features l) x then Inr (map (map (linear_vec l)) x)
      else Inl RuntimeError)"

subsection \<open>nn.LayerNorm\<close>

text \<open>
  \<^verbatim>\<open>nn.LayerNorm(n)\<close> normalises over the last dimension:
  \<open>y = (x - E[x]) / sqrt (Var[x] + eps) * weight + bias\<close>, with the biased variance,
  \<open>eps = 1e-5\<close>, and \<open>weight\<close>, \<open>bias\<close> initialised to ones and zeros.
\<close>

record LayerNorm =
  normalized_shape :: nat
  ln_weight :: vec
  ln_bias :: vec
  eps :: real

definition LayerNorm_init :: "int \<Rightarrow> error + LayerNorm" where
  "LayerNorm_init n =
     (if n < 0 then Inl RuntimeError
      else Inr \<lparr>normalized_shape = nat n, ln_weight = replicate (nat n) 1,
                ln_bias = replicate (nat n) 0, eps = 1 / 100000\<rparr>)"

definition mean :: "vec \<Rightarrow> real" where
  "mean v = sum_list v / real (length v)"

definition variance :: "vec \<Rightarrow> real" where
  "variance v = mean (map (\<lambda>e. (e - mean v)\<^sup>2) v)"

definition layer_norm_vec :: "LayerNorm \<Rightarrow> vec \<Rightarrow> vec" where
  "layer_norm_vec nrm v =
     map (\<lambda>(e, w, b). (e - mean v) / sqrt (variance v + eps nrm) * w + b)
       (zip v (zip (ln_weight nrm) (ln_bias nrm)))"

definition LayerNorm_forward :: "LayerNorm \<Rightarrow> tensor3 \<Rightarrow> error + tensor3" where
  "LayerNorm_forward nrm x =
     (if last_dim3 (normalized_shape nrm) x then Inr (map (map (layer_norm_vec nrm)) x)
      else Inl RuntimeError)"

subsection \<open>nn.Embedding\<close>

text \<open>
  \<^verbatim>\<open>nn.Embedding(n, d)\<close>: a table of \<open>n\<close> rows of length \<open>d\<close>; the forward call
  replaces every index by its row and raises \<open>IndexError\<close> for an index outside
  \<open>[0, n)\<close>.
\<close>

record Embedding =
  num_embeddings :: nat
  embedding_dim :: nat
  emb_weight :: mat

definition Embedding_init :: "initialiser \<Rightarrow> int \<Rightarrow> int \<Rightarrow> error + Embedding" where
  "Embedding_init g n d =
     (if n < 0 \<or> d < 0 then Inl RuntimeError
      else Inr \<lparr>num_embeddings = nat n, embedding_dim = nat d,
                emb_weight = map (\<lambda>r. map (\<lambda>c. g [r, c]) [0..<nat d]) [0..<nat n]\<rparr>)"

definition valid_ids :: "nat \<Rightarrow> int list list \<Rightarrow> bool" where
  "valid_ids n x \<longleftrightarrow> (\<forall>row \<in> set x. \<forall>t \<in> set row. 0 \<le> t \<and> t < int n)"

definition Embedding_forward :: "Embedding \<Rightarrow> int list list \<Rightarrow> error + tensor3" where
  "Embedding_forward emb x =
     (if valid_ids (num_embeddings emb) x
      then Inr (map (map (\<lambda>t. emb_weight emb ! nat t)) x)
      else Inl IndexError)"

subsection \<open>Tensor operations\<close>

text \<open>\<^verbatim>\<open>nn.ReLU\<close>: negative entries become 0.\<close>

definition relu :: "tensor3 \<Rightarrow> tensor3" where
  "relu x = map (map (map (max 0))) x"

text \<open>
  \<open>columns n M\<close> is the transpose of a matrix \<open>M\<close> with \<open>n\<close> columns. The number of
  columns is an argument: the nesting of a matrix without rows does not record it.
\<close>

definition columns :: "nat \<Rightarrow> 'a list list \<Rightarrow> 'a list list" where
  "columns n M = map (\<lambda>j. map (\<lambda>row. row ! j) M) [0..<n]"

text \<open>
  \<^verbatim>\<open>t.transpose(1, 2)\<close> of a rank-4 tensor and \<^verbatim>\<open>t.transpose(-2, -1)\<close>; \<open>n\<close> is the
  size of the dimension that moves forward.
\<close>

definition transpose_1_2 :: "nat \<Rightarrow> 'a list list list \<Rightarrow> 'a list list list" where
  "transpose_1_2 n t = map (columns n) t"

definition transpose_last :: "nat \<Rightarrow> tensor4 \<Rightarrow> tensor4" where
  "transpose_last n t = map (map (columns n)) t"

text \<open>
  \<^verbatim>\<open>torch.matmul\<close> of two rank-4 tensors: the matrix product for every sample and head;
  \<open>n\<close> is the number of columns of the right operand.
\<close>

definition matmul2 :: "nat \<Rightarrow> mat \<Rightarrow> mat \<Rightarrow> mat" where
  "matmul2 n A M = map (\<lambda>row. map (\<lambda>col. dot row col) (columns n M)) A"

definition matmul :: "nat \<Rightarrow> tensor4 \<Rightarrow> tensor4 \<Rightarrow> tensor4" where
  "matmul n A M = map2 (map2 (matmul2 n)) A M"

definition div_scalar :: "tensor4 \<Rightarrow> real \<Rightarrow> tensor4" where
  "div_scalar t c = map (map (map (map (\<lambda>e. e / c)))) t"

text \<open>\<^verbatim>\<open>softmax(t, dim=-1)\<close>: \<open>exp x\<^sub>i / \<Sum>\<^sub>j exp x\<^sub>j\<close> along the last dimension.\<close>

definition softmax_vec :: "vec \<Rightarrow> vec" where
  "softmax_vec v = map (\<lambda>e. exp e / sum_list (map exp v)) v"

definition softmax :: "tensor4 \<Rightarrow> tensor4" where
  "softmax t = map (map (map softmax_vec)) t"

text \<open>
  \<^verbatim>\<open>t.view(batch_size, seq_length, H, D)\<close> of a contiguous \<open>(batch, seq, E)\<close> tensor cuts
  every vector into \<open>H\<close> consecutive pieces of length \<open>D\<close>; it needs as many entries as
  the tensor has. A negative size raises: with \<open>D = E // H\<close> and \<open>E \<ge> 0\<close> it is never a
  lone \<open>-1\<close> that the remaining sizes determine.
\<close>

definition chunks :: "nat \<Rightarrow> nat \<Rightarrow> 'a list \<Rightarrow> 'a list list" where
  "chunks H D v = map (\<lambda>h. take D (drop (h * D) v)) [0..<H]"

definition view_split :: "int \<Rightarrow> int \<Rightarrow> tensor3 \<Rightarrow> error + tensor4" where
  "view_split H D x =
     (if H < 0 \<or> D < 0 then Inl RuntimeError
      else if last_dim3 (nat H * nat D) x then Inr (map (map (chunks (nat H) (nat D))) x)
      else Inl RuntimeError)"

text \<open>
  \<^verbatim>\<open>t.contiguous().view(batch_size, seq_length, E)\<close> of a \<open>(batch, seq, H, D)\<close> tensor
  joins the pieces of every position again.
\<close>

definition view_merge :: "nat \<Rightarrow> tensor4 \<Rightarrow> error + tensor3" where
  "view_merge E t =
     (if \<forall>tb \<in> set t. \<forall>p \<in> set tb. length (concat p) = E then Inr (map (map concat) t)
      else Inl RuntimeError)"

text \<open>
  \<^verbatim>\<open>x + y\<close> for operands of one shape, which is what sizes made by the constructors
  give (a dimension of size 1 that torch would broadcast is the case of
  \<open>add_positional\<close> only).
\<close>

definition add3 :: "tensor3 \<Rightarrow> tensor3 \<Rightarrow> error + tensor3" where
  "add3 x y =
     (if map (map length) x = map (map length) y then Inr (map2 (map2 (map2 (+))) x y)
      else Inl RuntimeError)"

text \<open>
  \<^verbatim>\<open>e + p\<close> where \<open>p\<close> has one sample, added to every sample of \<open>e\<close>
  (broadcasting along the batch dimension).
\<close>

definition add_positional :: "tensor3 \<Rightarrow> tensor3 \<Rightarrow> error + tensor3" where
  "add_positional e p =
     (case p of
        [pr] \<Rightarrow>
          (if \<forall>eb \<in> set e. map length eb = map length pr
           then Inr (map (\<lambda>eb. map2 (map2 (+)) eb pr) e)
           else Inl RuntimeError)
      | _ \<Rightarrow> add3 e p)"

text \<open>
  \<^verbatim>\<open>x.mean(dim=1)\<close> of a tensor of shape \<open>(batch, seq, E)\<close>: the average over the
  sequence axis, of shape \<open>(batch, E)\<close>; for \<open>seq = 0\<close> every entry is NaN. \<open>E\<close> is an
  argument, since the nesting of a sample without positions does not record it.
\<close>

definition mean_nan :: "vec \<Rightarrow> real option" where
  "mean_nan v = (if v = [] then None else Some (mean v))"

definition mean_dim1 :: "nat \<Rightarrow> tensor3 \<Rightarrow> real option list list" where
  "mean_dim1 E x = map (\<lambda>xb. map mean_nan (columns E xb)) x"

section \<open>MultiHeadSelfAttention\<close>

text \<open>
  \<^verbatim>\<open>
  class MultiHeadSelfAttention(nn.Module):
      def __init__(self, embed_dim, num_heads):
          self.num_heads = num_heads
          self.embed_dim = embed_dim
          self.head_dim = embed_dim // num_heads
          self.query = nn.Linear(embed_dim, embed_dim)
          self.key = nn.Linear(embed_dim, embed_dim)
          self.value = nn.Linear(embed_dim, embed_dim)
          self.fc_out = nn.Linear(embed_dim, embed_dim)
      def forward(self, x):
          batch_size, seq_length, embed_dim = x.shape
          Q = self.query(x).view(batch_size, seq_length, self.num_heads, self.head_dim).transpose(1, 2)
          K = self.key(x).view(batch_size, seq_length, self.num_heads, self.head_dim).transpose(1, 2)
          V = self.value(x).view(batch_size, seq_length, self.num_heads, self.head_dim).transpose(1, 2)
          attn_scores = torch.matmul(Q, K.transpose(-2, -1)) / (self.head_dim ** 0.5)
          attn_weights = torch.nn.functional.softmax(attn_scores, dim=-1)
          attn_output = torch.matmul(attn_weights, V).transpose(1, 2).contiguous().view(batch_size, seq_length, embed_dim)
          return self.fc_out(attn_output)
  \<close>
  The field \<^verbatim>\<open>value\<close> is \<open>value'\<close> here.
\<close>

record MultiHeadSelfAttention =
  num_heads :: int
  embed_dim :: int
  head_dim :: int
  query :: Linear
  key :: Linear
  value' :: Linear
  fc_out :: Linear

definition MultiHeadSelfAttention_init ::
  "initialiser \<Rightarrow> int \<Rightarrow> int \<Rightarrow> error + MultiHeadSelfAttention" where
  "MultiHeadSelfAttention_init g E H =
     (if H = 0 then Inl ZeroDivisionError
      else
        (case Linear_init (sub g 0) E E of Inl e \<Rightarrow> Inl e | Inr q \<Rightarrow>
         case Linear_init (sub g 1) E E of Inl e \<Rightarrow> Inl e | Inr k \<Rightarrow>
         case Linear_init (sub g 2) E E of Inl e \<Rightarrow> Inl e | Inr v \<Rightarrow>
         case Linear_init (sub g 3) E E of Inl e \<Rightarrow> Inl e | Inr out \<Rightarrow>
           Inr \<lparr>num_heads = H, embed_dim = E, head_dim = E div H,
                query = q, key = k, value' = v, fc_out = out\<rparr>))"

text \<open>
  \<^verbatim>\<open>self.query(x).view(batch_size, seq_length, self.num_heads, self.head_dim).transpose(1, 2)\<close>,
  and the same for the key and the value.
\<close>

definition project_heads :: "MultiHeadSelfAttention \<Rightarrow> Linear \<Rightarrow> tensor3 \<Rightarrow> error + tensor4" where
  "project_heads m l x =
     (case Linear_forward3 l x of Inl e \<Rightarrow> Inl e | Inr y \<Rightarrow>
      case view_split (num_heads m) (head_dim m) y of Inl e \<Rightarrow> Inl e | Inr t \<Rightarrow>
        Inr (transpose_1_2 (nat (num_heads m)) t))"

definition MultiHeadSelfAttention_forward ::
  "MultiHeadSelfAttention \<Rightarrow> tensor3 \<Rightarrow> error + tensor3" where
  "MultiHeadSelfAttention_forward m x =
     (let seq_length = dim1 x; embed_dim_x = dim2 x in
      case project_heads m (query m) x of Inl e \<Rightarrow> Inl e | Inr Q \<Rightarrow>
      case project_heads m (key m) x of Inl e \<Rightarrow> Inl e | Inr K \<Rightarrow>
      case project_heads m (value' m) x of Inl e \<Rightarrow> Inl e | Inr V \<Rightarrow>
        (let attn_scores =
               div_scalar (matmul seq_length Q (transpose_last (nat (head_dim m)) K))
                 (sqrt (real_of_int (head_dim m)));
             attn_weights = softmax attn_scores
         in case view_merge embed_dim_x
                   (transpose_1_2 seq_length (matmul (nat (head_dim m)) attn_weights V)) of
              Inl e \<Rightarrow> Inl e
            | Inr attn_output \<Rightarrow> Linear_forward3 (fc_out m) attn_output))"

section \<open>FeedForwardNetwork\<close>

text \<open>
  \<^verbatim>\<open>
  class FeedForwardNetwork(nn.Module):
      def __init__(self, embed_dim, ff_dim):
          self.fc1 = nn.Linear(embed_dim, ff_dim)
          self.fc2 = nn.Linear(ff_dim, embed_dim)
          self.relu = nn.ReLU()
      def forward(self, x):
          return self.fc2(self.relu(self.fc1(x)))
  \<close>
\<close>

record FeedForwardNetwork =
  fc1 :: Linear
  fc2 :: Linear

definition FeedForwardNetwork_init ::
  "initialiser \<Rightarrow> int \<Rightarrow> int \<Rightarrow> error + FeedForwardNetwork" where
  "FeedForwardNetwork_init g E F =
     (case Linear_init (sub g 0) E F of Inl e \<Rightarrow> Inl e | Inr l1 \<Rightarrow>
      case Linear_init (sub g 1) F E of Inl e \<Rightarrow> Inl e | Inr l2 \<Rightarrow>
        Inr \<lparr>fc1 = l1, fc2 = l2\<rparr>)"

definition FeedForwardNetwork_forward :: "FeedForwardNetwork \<Rightarrow> tensor3 \<Rightarrow> error + tensor3" where
  "FeedForwardNetwork_forward m x =
     (case Linear_forward3 (fc1 m) x of Inl e \<Rightarrow> Inl e | Inr h \<Rightarrow>
        Linear_forward3 (fc2 m) (relu h))"

section \<open>TransformerBlock\<close>

text \<open>
  \<^verbatim>\<open>
  class TransformerBlock(nn.Module):
      def __init__(self, embed_dim, num_heads, ff_dim):
          self.attention = MultiHeadSelfAttention(embed_dim, num_heads)
          self.norm1 = nn.LayerNorm(embed_dim)
          self.ffn = FeedForwardNetwork(embed_dim, ff_dim)
          self.norm2 = nn.LayerNorm(embed_dim)
      def forward(self, x):
          attn_output = self.attention(x)
          x = self.norm1(x + attn_output)
          ffn_output = self.ffn(x)
          x = self.norm2(x + ffn_output)
          return x
  \<close>
\<close>

record TransformerBlock =
  attention :: MultiHeadSelfAttention
  norm1 :: LayerNorm
  ffn :: FeedForwardNetwork
  norm2 :: LayerNorm

definition TransformerBlock_init ::
  "initialiser \<Rightarrow> int \<Rightarrow> int \<Rightarrow> int \<Rightarrow> error + TransformerBlock" where
  "TransformerBlock_init g E H F =
     (case MultiHeadSelfAttention_init (sub g 0) E H of Inl e \<Rightarrow> Inl e | Inr a \<Rightarrow>
      case LayerNorm_init E of Inl e \<Rightarrow> Inl e | Inr n1 \<Rightarrow>
      case FeedForwardNetwork_init (sub g 1) E F of Inl e \<Rightarrow> Inl e | Inr f \<Rightarrow>
      case LayerNorm_init E of Inl e \<Rightarrow> Inl e | Inr n2 \<Rightarrow>
        Inr \<lparr>attention = a, norm1 = n1, ffn = f, norm2 = n2\<rparr>)"

definition TransformerBlock_forward :: "TransformerBlock \<Rightarrow> tensor3 \<Rightarrow> error + tensor3" where
  "TransformerBlock_forward m x =
     (case MultiHeadSelfAttention_forward (attention m) x of Inl e \<Rightarrow> Inl e | Inr attn_output \<Rightarrow>
      case add3 x attn_output of Inl e \<Rightarrow> Inl e | Inr s1 \<Rightarrow>
      case LayerNorm_forward (norm1 m) s1 of Inl e \<Rightarrow> Inl e | Inr x1 \<Rightarrow>
      case FeedForwardNetwork_forward (ffn m) x1 of Inl e \<Rightarrow> Inl e | Inr ffn_output \<Rightarrow>
      case add3 x1 ffn_output of Inl e \<Rightarrow> Inl e | Inr s2 \<Rightarrow>
        LayerNorm_forward (norm2 m) s2)"

section \<open>CustomTransformer\<close>

text \<open>
  \<^verbatim>\<open>
  class CustomTransformer(nn.Module):
      def __init__(self, vocab_size, embed_dim, num_heads, ff_dim, num_layers, num_classes):
          self.embedding = nn.Embedding(vocab_size, embed_dim)
          self.positional_encoding = nn.Parameter(torch.zeros(1, 100, embed_dim))
          self.layers = nn.ModuleList([
              TransformerBlock(embed_dim, num_heads, ff_dim) for _ in range(num_layers)
          ])
          self.fc = nn.Linear(embed_dim, num_classes)
      def forward(self, x):
          x = self.embedding(x) + self.positional_encoding[:, :x.shape[1], :]
          for layer in self.layers:
              x = layer(x)
          x = x.mean(dim=1)  # Global average pooling
          x = self.fc(x)
          return x
  \<close>
\<close>

record CustomTransformer =
  embedding :: Embedding
  positional_encoding :: tensor3
  layers :: "TransformerBlock list"
  fc :: Linear

text \<open>\<^verbatim>\<open>torch.zeros(1, 100, embed_dim)\<close>.\<close>

definition zeros_1_100 :: "int \<Rightarrow> error + tensor3" where
  "zeros_1_100 E =
     (if E < 0 then Inl RuntimeError else Inr [replicate 100 (replicate (nat E) 0)])"

text \<open>The list comprehension over \<^verbatim>\<open>range(num_layers)\<close>: the first failure ends it.\<close>

fun init_layers ::
  "initialiser \<Rightarrow> int \<Rightarrow> int \<Rightarrow> int \<Rightarrow> nat list \<Rightarrow> error + TransformerBlock list" where
  "init_layers g E H F [] = Inr []"
| "init_layers g E H F (i # is) =
     (case TransformerBlock_init (sub g i) E H F of Inl e \<Rightarrow> Inl e | Inr b \<Rightarrow>
      case init_layers g E H F is of Inl e \<Rightarrow> Inl e | Inr bs \<Rightarrow> Inr (b # bs))"

definition CustomTransformer_init ::
  "initialiser \<Rightarrow> int \<Rightarrow> int \<Rightarrow> int \<Rightarrow> int \<Rightarrow> int \<Rightarrow> int \<Rightarrow> error + CustomTransformer" where
  "CustomTransformer_init g vocab_size E H F num_layers num_classes =
     (case Embedding_init (sub g 0) vocab_size E of Inl e \<Rightarrow> Inl e | Inr emb \<Rightarrow>
      case zeros_1_100 E of Inl e \<Rightarrow> Inl e | Inr pos \<Rightarrow>
      case init_layers (sub g 1) E H F [0..<nat num_layers] of Inl e \<Rightarrow> Inl e | Inr ls \<Rightarrow>
      case Linear_init (sub g 2) E num_classes of Inl e \<Rightarrow> Inl e | Inr l \<Rightarrow>
        Inr \<lparr>embedding = emb, positional_encoding = pos, layers = ls, fc = l\<rparr>)"

text \<open>
  The first statement of \<^verbatim>\<open>forward\<close>:
  \<^verbatim>\<open>self.embedding(x) + self.positional_encoding[:, :x.shape[1], :]\<close>.
\<close>

definition embed_positional :: "CustomTransformer \<Rightarrow> int list list \<Rightarrow> error + tensor3" where
  "embed_positional m x =
     (case Embedding_forward (embedding m) x of Inl e \<Rightarrow> Inl e | Inr emb \<Rightarrow>
        add_positional emb (map (take (dim1 x)) (positional_encoding m)))"

text \<open>The loop \<^verbatim>\<open>for layer in self.layers: x = layer(x)\<close>.\<close>

fun apply_layers :: "TransformerBlock list \<Rightarrow> tensor3 \<Rightarrow> error + tensor3" where
  "apply_layers [] x = Inr x"
| "apply_layers (layer # ls) x =
     (case TransformerBlock_forward layer x of Inl e \<Rightarrow> Inl e | Inr y \<Rightarrow> apply_layers ls y)"

text \<open>
  The tensor that reaches \<^verbatim>\<open>x.mean(dim=1)\<close> has the last dimension of the embedding,
  \<open>embedding_dim\<close>: every layer returns a tensor of the shape of its input.
\<close>

definition CustomTransformer_forward ::
  "CustomTransformer \<Rightarrow> int list list \<Rightarrow> error + real option list list" where
  "CustomTransformer_forward m x =
     (case embed_positional m x of Inl e \<Rightarrow> Inl e | Inr x0 \<Rightarrow>
      case apply_layers (layers m) x0 of Inl e \<Rightarrow> Inl e | Inr xl \<Rightarrow>
        Linear_forward2 (fc m) (mean_dim1 (embedding_dim (embedding m)) xl))"

section \<open>Modules as the constructors build them\<close>

text \<open>
  The sizes that the constructors establish and that training keeps: \<open>wf_Linear i n\<close> is
  a layer made by \<^verbatim>\<open>nn.Linear(i, n)\<close>, and so on for the other modules. The values of
  the parameters are arbitrary.
\<close>

definition wf_Linear :: "nat \<Rightarrow> nat \<Rightarrow> Linear \<Rightarrow> bool" where
  "wf_Linear i n l \<longleftrightarrow>
     in_features l = i \<and> out_features l = n \<and> is_mat n i (weight l) \<and> length (bias l) = n"

definition wf_LayerNorm :: "nat \<Rightarrow> LayerNorm \<Rightarrow> bool" where
  "wf_LayerNorm n nrm \<longleftrightarrow>
     normalized_shape nrm = n \<and> length (ln_weight nrm) = n \<and> length (ln_bias nrm) = n \<and>
     eps nrm = 1 / 100000"

definition wf_Embedding :: "nat \<Rightarrow> nat \<Rightarrow> Embedding \<Rightarrow> bool" where
  "wf_Embedding n d emb \<longleftrightarrow>
     num_embeddings emb = n \<and> embedding_dim emb = d \<and> is_mat n d (emb_weight emb)"

definition wf_MultiHeadSelfAttention :: "nat \<Rightarrow> MultiHeadSelfAttention \<Rightarrow> bool" where
  "wf_MultiHeadSelfAttention E m \<longleftrightarrow>
     embed_dim m = int E \<and> num_heads m \<noteq> 0 \<and> head_dim m = embed_dim m div num_heads m \<and>
     wf_Linear E E (query m) \<and> wf_Linear E E (key m) \<and> wf_Linear E E (value' m) \<and>
     wf_Linear E E (fc_out m)"

text \<open>
  The invariant of the specification: a positive number of heads that divides a positive
  embedding dimension, so that \<open>num_heads * head_dim = embed_dim\<close>.
\<close>

definition heads_divide :: "MultiHeadSelfAttention \<Rightarrow> bool" where
  "heads_divide m \<longleftrightarrow>
     0 < num_heads m \<and> 0 < embed_dim m \<and> embed_dim m mod num_heads m = 0"

definition wf_FeedForwardNetwork :: "nat \<Rightarrow> nat \<Rightarrow> FeedForwardNetwork \<Rightarrow> bool" where
  "wf_FeedForwardNetwork E F m \<longleftrightarrow> wf_Linear E F (fc1 m) \<and> wf_Linear F E (fc2 m)"

definition wf_TransformerBlock :: "nat \<Rightarrow> nat \<Rightarrow> TransformerBlock \<Rightarrow> bool" where
  "wf_TransformerBlock E F m \<longleftrightarrow>
     wf_MultiHeadSelfAttention E (attention m) \<and> wf_LayerNorm E (norm1 m) \<and>
     wf_FeedForwardNetwork E F (ffn m) \<and> wf_LayerNorm E (norm2 m)"

definition wf_CustomTransformer :: "nat \<Rightarrow> nat \<Rightarrow> nat \<Rightarrow> nat \<Rightarrow> CustomTransformer \<Rightarrow> bool" where
  "wf_CustomTransformer V E F C m \<longleftrightarrow>
     wf_Embedding V E (embedding m) \<and> is_tensor3 1 100 E (positional_encoding m) \<and>
     list_all (wf_TransformerBlock E F) (layers m) \<and> wf_Linear E C (fc m)"

section \<open>Example values\<close>

text \<open>An initialiser that draws 0 everywhere.\<close>

definition zero_init :: initialiser where
  "zero_init = (\<lambda>p. 0)"

text \<open>
  A model as \<^verbatim>\<open>CustomTransformer(128, 2, 2, 2, 1, 2)\<close> builds it, with parameter values
  chosen so that every square root in the forward pass is rational: only token 1 has a
  non-zero embedding.
\<close>

definition example_linear :: "mat \<Rightarrow> Linear" where
  "example_linear W = \<lparr>in_features = 2, out_features = 2, weight = W, bias = [0, 0]\<rparr>"

definition example_attention :: MultiHeadSelfAttention where
  "example_attention =
     \<lparr>num_heads = 2, embed_dim = 2, head_dim = 1,
      query = example_linear [[0, 0], [0, 0]],
      key = example_linear [[0, 0], [0, 0]],
      value' = example_linear [[1, 0], [0, 1]],
      fc_out = example_linear [[- 2, 0], [0, - 2]]\<rparr>"

definition example_block :: TransformerBlock where
  "example_block =
     \<lparr>attention = example_attention,
      norm1 = \<lparr>normalized_shape = 2, ln_weight = [11 / 2000, 11 / 2000], ln_bias = [0, 0],
               eps = 1 / 100000\<rparr>,
      ffn = \<lparr>fc1 = example_linear [[1, 0], [0, 1]], fc2 = example_linear [[0, 0], [0, 0]]\<rparr>,
      norm2 = \<lparr>normalized_shape = 2, ln_weight = [1, 1], ln_bias = [0, 0],
               eps = 1 / 100000\<rparr>\<rparr>"

definition example_model :: CustomTransformer where
  "example_model =
     \<lparr>embedding =
        \<lparr>num_embeddings = 128, embedding_dim = 2,
         emb_weight = map (\<lambda>t. if t = 1 then [9 / 1000, 0] else [0, 0]) [0..<128]\<rparr>,
      positional_encoding = [replicate 100 [0, 0]],
      layers = [example_block],
      fc = example_linear [[1, 0], [0, 1]]\<rparr>"

text \<open>
  The same model with another embedding table: only token 0, the padding token, has a
  non-zero embedding.
\<close>

definition padded_model :: CustomTransformer where
  "padded_model =
     example_model
       \<lparr>embedding :=
          \<lparr>num_embeddings = 128, embedding_dim = 2,
           emb_weight = map (\<lambda>t. if t = 0 then [9 / 1000, 0] else [0, 0]) [0..<128]\<rparr>\<rparr>"

section \<open>The forward pass, sample by sample\<close>

text \<open>
  Every operation of \<^verbatim>\<open>MultiHeadSelfAttention.forward\<close> acts on the samples of the
  batch and on the heads independently. The following functions name what it computes
  for one sample \<open>xb\<close> (a matrix of \<open>seq_length\<close> rows) and one head \<open>h\<close>; the
  proofs show that the tensor program above computes exactly these.
\<close>

definition head_rows :: "MultiHeadSelfAttention \<Rightarrow> Linear \<Rightarrow> mat \<Rightarrow> nat \<Rightarrow> mat" where
  "head_rows m l xb h =
     map (\<lambda>v. take (nat (head_dim m)) (drop (h * nat (head_dim m)) (linear_vec l v))) xb"

definition sample_weights :: "MultiHeadSelfAttention \<Rightarrow> mat \<Rightarrow> nat \<Rightarrow> mat" where
  "sample_weights m xb h =
     map (\<lambda>q. softmax_vec
               (map (\<lambda>k. dot q k / sqrt (real_of_int (head_dim m))) (head_rows m (key m) xb h)))
       (head_rows m (query m) xb h)"

definition sample_head_output :: "MultiHeadSelfAttention \<Rightarrow> mat \<Rightarrow> nat \<Rightarrow> mat" where
  "sample_head_output m xb h =
     matmul2 (nat (head_dim m)) (sample_weights m xb h) (head_rows m (value' m) xb h)"

definition sample_attention :: "MultiHeadSelfAttention \<Rightarrow> mat \<Rightarrow> mat" where
  "sample_attention m xb =
     map (\<lambda>i. linear_vec (fc_out m)
                (concat (map (\<lambda>h. sample_head_output m xb h ! i) [0..<nat (num_heads m)])))
       [0..<length xb]"

section \<open>Reference formulations\<close>

text \<open>
  The multi-head scaled dot-product attention of the specification, written entry by
  entry with indexed sums, independently of the tensor program:
  \<^enum> \<open>spec_linear\<close>: a learned linear projection, \<open>y\<^sub>r = (\<Sum>\<^sub>c W\<^sub>r\<^sub>c x\<^sub>c) + b\<^sub>r\<close>;
  \<^enum> \<open>spec_head\<close>: piece \<open>h\<close> of a projected vector, one of \<open>num_heads\<close> equal pieces of
    length \<open>head_dim\<close>;
  \<^enum> \<open>spec_score\<close>: the score of query position \<open>i\<close> and key position \<open>j\<close>,
    \<open>Q\<^sub>i \<cdot> K\<^sub>j / sqrt head_dim\<close>;
  \<^enum> \<open>spec_weight\<close>: the softmax of the scores over the key positions;
  \<^enum> \<open>spec_head_output\<close>: the sum of the value vectors weighted by these;
  \<^enum> \<open>spec_attention\<close>: the heads joined again and projected.
\<close>

definition spec_linear :: "Linear \<Rightarrow> vec \<Rightarrow> vec" where
  "spec_linear l v =
     map (\<lambda>r. (\<Sum>c<in_features l. weight l ! r ! c * v ! c) + bias l ! r)
       [0..<out_features l]"

definition spec_head :: "nat \<Rightarrow> nat \<Rightarrow> vec \<Rightarrow> vec" where
  "spec_head D h v = map (\<lambda>d. v ! (h * D + d)) [0..<D]"

definition spec_score :: "MultiHeadSelfAttention \<Rightarrow> mat \<Rightarrow> nat \<Rightarrow> nat \<Rightarrow> nat \<Rightarrow> real" where
  "spec_score m xb h i j =
     (\<Sum>d<nat (head_dim m).
         spec_head (nat (head_dim m)) h (spec_linear (query m) (xb ! i)) ! d *
         spec_head (nat (head_dim m)) h (spec_linear (key m) (xb ! j)) ! d)
     / sqrt (real_of_int (head_dim m))"

definition spec_weight :: "MultiHeadSelfAttention \<Rightarrow> mat \<Rightarrow> nat \<Rightarrow> nat \<Rightarrow> nat \<Rightarrow> real" where
  "spec_weight m xb h i j =
     exp (spec_score m xb h i j) / (\<Sum>k<length xb. exp (spec_score m xb h i k))"

definition spec_head_output :: "MultiHeadSelfAttention \<Rightarrow> mat \<Rightarrow> nat \<Rightarrow> nat \<Rightarrow> vec" where
  "spec_head_output m xb h i =
     map (\<lambda>d. \<Sum>j<length xb.
                  spec_weight m xb h i j *
                  spec_head (nat (head_dim m)) h (spec_linear (value' m) (xb ! j)) ! d)
       [0..<nat (head_dim m)]"

definition spec_attention :: "MultiHeadSelfAttention \<Rightarrow> tensor3 \<Rightarrow> tensor3" where
  "spec_attention m x =
     map (\<lambda>xb. map (\<lambda>i. spec_linear (fc_out m)
                            (concat (map (\<lambda>h. spec_head_output m xb h i)
                                       [0..<nat (num_heads m)])))
                  [0..<length xb])
       x"

text \<open>
  The normalisation of the specification for one embedding vector: subtract the mean,
  divide by the standard deviation with the constant \<open>c\<close> added under the square root,
  then scale and shift every entry with the learned \<open>ln_weight\<close> and \<open>ln_bias\<close>.
\<close>

definition spec_mean :: "vec \<Rightarrow> real" where
  "spec_mean v = (\<Sum>d<length v. v ! d) / real (length v)"

definition spec_std :: "real \<Rightarrow> vec \<Rightarrow> real" where
  "spec_std c v = sqrt ((\<Sum>d<length v. (v ! d - spec_mean v)\<^sup>2) / real (length v) + c)"

definition spec_normalize :: "LayerNorm \<Rightarrow> vec \<Rightarrow> vec" where
  "spec_normalize nrm v =
     map (\<lambda>d. (v ! d - spec_mean v) / spec_std (eps nrm) v * ln_weight nrm ! d + ln_bias nrm ! d)
       [0..<length v]"

text \<open>The residual sum \<open>x + y\<close> entry by entry, for \<open>y\<close> of the shape of \<open>x\<close>.\<close>

definition spec_residual :: "tensor3 \<Rightarrow> tensor3 \<Rightarrow> tensor3" where
  "spec_residual x y =
     map (\<lambda>n. map (\<lambda>i. map (\<lambda>d. x ! n ! i ! d + y ! n ! i ! d) [0..<length (x ! n ! i)])
                  [0..<length (x ! n)])
       [0..<length x]"

text \<open>
  The unweighted mean over all positions of one sample, padding positions included:
  entry \<open>d\<close> is \<open>(\<Sum>\<^sub>i xb\<^sub>i\<^sub>d) / seq_len\<close>, and NaN when there is no position. The final
  projection of a pooled vector is \<open>spec_linear\<close> of its entries, and NaN in every
  entry when the vector holds a NaN.
\<close>

definition spec_mean_pool :: "nat \<Rightarrow> mat \<Rightarrow> real option list" where
  "spec_mean_pool E xb =
     map (\<lambda>d. if length xb = 0 then None
               else Some ((\<Sum>i<length xb. xb ! i ! d) / real (length xb)))
       [0..<E]"

definition spec_logits :: "Linear \<Rightarrow> real option list \<Rightarrow> real option list" where
  "spec_logits l p =
     (if \<exists>d<length p. p ! d = None then replicate (out_features l) None
      else map (\<lambda>c. Some ((\<Sum>d<in_features l. weight l ! c ! d * the (p ! d)) + bias l ! c))
             [0..<out_features l])"

section \<open>The token sequence of a dataset item\<close>

lemma length_zeros_times: "length (zeros_times k) = nat k"
  by (simp add: zeros_times_def)

lemma ord_range: "0 \<le> ord c \<and> ord c < 1114112"
  using Rep_code_point [of c] by (simp add: ord_def)

lemma ord_Abs: "n < 1114112 \<Longrightarrow> ord (Abs_code_point n) = int n"
  by (simp add: ord_def Abs_code_point_inverse)

lemma in_int64_ord: "in_int64 (ord c)"
  using ord_range [of c] by (simp add: in_int64_def)

lemma tensor_long_list_padded:
  "tensor_long_list (map ord s @ zeros_times k) = Inr (map ord s @ zeros_times k)"
proof -
  have "list_all in_int64 (map ord s)"
    by (simp add: list_all_iff in_int64_ord)
  moreover have "list_all in_int64 (zeros_times k)"
    by (simp add: list_all_iff zeros_times_def in_int64_def)
  ultimately show ?thesis by (simp add: tensor_long_list_def)
qed

lemma getitem_run:
  assumes "getitem_list (smiles d) idx = Inr s"
    and "getitem_list (labels d) idx = Inr lab"
  shows "SmilesDataset_getitem d idx =
           (if in_int64 lab
            then Inr (map ord s @ zeros_times (max_len d - int (length s)), lab)
            else Inl RuntimeError)"
  using assms
  by (simp add: SmilesDataset_getitem_def tensor_long_list_padded tensor_long_def)

text \<open>
  C3 (as amended). Let \<open>idx\<close> be a valid index: \<^verbatim>\<open>smiles[idx]\<close> is the string \<open>s\<close> and
  \<^verbatim>\<open>labels[idx]\<close> is \<open>lab\<close>, and let \<open>s\<close> have at most \<open>max_len\<close> characters. If
  \<open>lab\<close> is a 64-bit integer, \<^verbatim>\<open>__getitem__\<close> returns a token sequence of length exactly
  \<open>max_len\<close> whose first \<open>len(s)\<close> entries are the character codes of \<open>s\<close> and whose
  remaining entries are 0; otherwise \<^verbatim>\<open>torch.tensor\<close> raises on the label and no item
  is returned.
\<close>

theorem getitem_pads_to_max_len:
  assumes "getitem_list (smiles d) idx = Inr s"
    and "getitem_list (labels d) idx = Inr lab"
    and "int (length s) \<le> max_len d"
  shows "(in_int64 lab \<longrightarrow>
           (\<exists>toks. SmilesDataset_getitem d idx = Inr (toks, lab) \<and>
              int (length toks) = max_len d \<and>
              take (length s) toks = map ord s \<and>
              (\<forall>i. length s \<le> i \<and> i < length toks \<longrightarrow> toks ! i = 0))) \<and>
         (\<not> in_int64 lab \<longrightarrow> SmilesDataset_getitem d idx = Inl RuntimeError)"
proof (intro conjI impI)
  let ?toks = "map ord s @ zeros_times (max_len d - int (length s))"
  note run = getitem_run [OF assms(1,2)]
  show "SmilesDataset_getitem d idx = Inl RuntimeError" if "\<not> in_int64 lab"
    using run that by simp
  assume ok: "in_int64 lab"
  have ret: "SmilesDataset_getitem d idx = Inr (?toks, lab)"
    using run ok by simp
  have len: "int (length ?toks) = max_len d"
    using assms(3) by (simp add: length_zeros_times)
  have pre: "take (length s) ?toks = map ord s"
    by simp
  have pad: "\<forall>i. length s \<le> i \<and> i < length ?toks \<longrightarrow> ?toks ! i = 0"
    by (auto simp: nth_append zeros_times_def)
  from ret len pre pad
  show "\<exists>toks. SmilesDataset_getitem d idx = Inr (toks, lab) \<and>
              int (length toks) = max_len d \<and>
              take (length s) toks = map ord s \<and>
              (\<forall>i. length s \<le> i \<and> i < length toks \<longrightarrow> toks ! i = 0)"
    by blast
qed

lemma py_str_CCO: "map ord (py_str ''CCO'') = [67, 67, 79]"
  by (simp add: py_str_def ord_Abs)

text \<open>
  The theorem at the dataset \<^verbatim>\<open>SmilesDataset(["CCO"], [7], 100)\<close> and index 0: the
  tokens are 67, 67, 79 followed by zeros, 100 in all; and at the same dataset with the
  label \<open>2\<^sup>6\<^sup>3\<close>, where no item is returned.
\<close>

theorem getitem_pads_to_max_len_witness:
  "(\<exists>toks. SmilesDataset_getitem (SmilesDataset_init [py_str ''CCO''] [7] 100) 0
              = Inr (toks, 7) \<and>
      int (length toks) = 100 \<and> take 3 toks = [67, 67, 79] \<and> toks ! 3 = 0 \<and> toks ! 99 = 0) \<and>
   SmilesDataset_getitem (SmilesDataset_init [py_str ''CCO''] [2 ^ 63] 100) 0
     = Inl RuntimeError"
proof -
  let ?d = "SmilesDataset_init [py_str ''CCO''] [7] 100"
  let ?e = "SmilesDataset_init [py_str ''CCO''] [2 ^ 63] 100"
  have a: "getitem_list (smiles ?d) 0 = Inr (py_str ''CCO'')"
    by (simp add: SmilesDataset_init_def getitem_list_def)
  have b: "getitem_list (labels ?d) 0 = Inr 7"
    by (simp add: SmilesDataset_init_def getitem_list_def)
  have c: "int (length (py_str ''CCO'')) \<le> max_len ?d"
    by (simp add: SmilesDataset_init_def py_str_def)
  have l3: "length (py_str ''CCO'') = 3" by (simp add: py_str_def)
  have seven: "in_int64 7" by (simp add: in_int64_def)
  from getitem_pads_to_max_len [OF a b c] seven
  obtain toks where t: "SmilesDataset_getitem ?d 0 = Inr (toks, 7)"
    "int (length toks) = max_len ?d"
    "take (length (py_str ''CCO'')) toks = map ord (py_str ''CCO'')"
    "\<forall>i. length (py_str ''CCO'') \<le> i \<and> i < length toks \<longrightarrow> toks ! i = 0"
    by blast
  have l: "length toks = 100" using t(2) by (simp add: SmilesDataset_init_def)
  have "toks ! 3 = 0" "toks ! 99 = 0" using t(4) l l3 by simp_all
  moreover have "take 3 toks = [67, 67, 79]" using t(3) l3 by (simp add: py_str_CCO)
  ultimately have first: "\<exists>toks. SmilesDataset_getitem ?d 0 = Inr (toks, 7) \<and>
      int (length toks) = 100 \<and> take 3 toks = [67, 67, 79] \<and> toks ! 3 = 0 \<and> toks ! 99 = 0"
    using t(1) l by auto
  have a': "getitem_list (smiles ?e) 0 = Inr (py_str ''CCO'')"
    by (simp add: SmilesDataset_init_def getitem_list_def)
  have b': "getitem_list (labels ?e) 0 = Inr (2 ^ 63)"
    by (simp add: SmilesDataset_init_def getitem_list_def)
  have c': "int (length (py_str ''CCO'')) \<le> max_len ?e"
    by (simp add: SmilesDataset_init_def py_str_def)
  have big: "\<not> in_int64 (2 ^ 63)" by (simp add: in_int64_def)
  from getitem_pads_to_max_len [OF a' b' c'] big
  have "SmilesDataset_getitem ?e 0 = Inl RuntimeError" by blast
  with first show ?thesis by blast
qed

text \<open>
  C3 as stated fails for a string longer than \<open>max_len\<close>: \<^verbatim>\<open>[0] * (max_len - len(s))\<close>
  is then empty and nothing is cut off. With \<open>max_len = 100\<close> and a string of 101
  characters \<^verbatim>\<open>C\<close> the token sequence has 101 entries.
\<close>

theorem getitem_long_string_counterexample:
  "SmilesDataset_getitem (SmilesDataset_init [replicate 101 (Abs_code_point 67)] [0] 100) 0
     = Inr (replicate 101 67, 0)
   \<and> length (replicate 101 (67::int)) \<noteq> 100"
  by (simp add: SmilesDataset_getitem_def SmilesDataset_init_def getitem_list_def
      zeros_times_def ord_Abs tensor_long_list_def tensor_long_def in_int64_def list_all_iff)

lemma Embedding_forward_invalid:
  assumes "toks \<in> set batch" "t \<in> set toks" "\<not> (0 \<le> t \<and> t < int (num_embeddings emb))"
  shows "Embedding_forward emb batch = Inl IndexError"
  using assms unfolding Embedding_forward_def valid_ids_def by auto

lemma CustomTransformer_forward_invalid:
  assumes "Embedding_forward (embedding m) batch = Inl e"
  shows "CustomTransformer_forward m batch = Inl e"
  using assms by (simp add: CustomTransformer_forward_def embed_positional_def)

text \<open>
  C10. \<^verbatim>\<open>__getitem__\<close> copies \<^verbatim>\<open>ord(c)\<close> of every character into the token sequence
  without an upper bound. Let \<^verbatim>\<open>smiles[idx]\<close> be \<open>s\<close>, with a character of code point
  128 or more (any code point up to 0x10FFFF) at position \<open>i\<close>, and \<^verbatim>\<open>labels[idx]\<close> be
  \<open>lab\<close>. If \<open>lab\<close> is a 64-bit integer, the item is returned, its token \<open>i\<close> is that
  code point, outside \<open>[0, 128)\<close>, and a forward pass of a model with
  \<open>vocab_size = 128\<close> on a batch that holds the sequence raises \<open>IndexError\<close> in the
  embedding lookup; otherwise \<^verbatim>\<open>torch.tensor\<close> raises on the label.
\<close>

theorem getitem_code_point_out_of_vocabulary:
  assumes "getitem_list (smiles d) idx = Inr s"
    and "getitem_list (labels d) idx = Inr lab"
    and "i < length s"
    and "128 \<le> ord (s ! i)"
  shows "(in_int64 lab \<longrightarrow>
           (\<exists>toks. SmilesDataset_getitem d idx = Inr (toks, lab) \<and>
              toks ! i = ord (s ! i) \<and> \<not> (0 \<le> toks ! i \<and> toks ! i < 128) \<and>
              (\<forall>m batch. num_embeddings (embedding m) = 128 \<and> toks \<in> set batch \<longrightarrow>
                 CustomTransformer_forward m batch = Inl IndexError))) \<and>
         (\<not> in_int64 lab \<longrightarrow> SmilesDataset_getitem d idx = Inl RuntimeError)"
proof (intro conjI impI)
  let ?toks = "map ord s @ zeros_times (max_len d - int (length s))"
  note run = getitem_run [OF assms(1,2)]
  show "SmilesDataset_getitem d idx = Inl RuntimeError" if "\<not> in_int64 lab"
    using run that by simp
  assume ok: "in_int64 lab"
  have ret: "SmilesDataset_getitem d idx = Inr (?toks, lab)"
    using run ok by simp
  have tok: "?toks ! i = ord (s ! i)"
    using assms(3) by (simp add: nth_append)
  have out: "\<not> (0 \<le> ?toks ! i \<and> ?toks ! i < 128)"
    using assms(4) tok by simp
  have mem: "?toks ! i \<in> set ?toks"
    using assms(3) by (intro nth_mem) simp
  have fail: "CustomTransformer_forward m batch = Inl IndexError"
    if "num_embeddings (embedding m) = 128 \<and> ?toks \<in> set batch" for m batch
  proof -
    from that out have "\<not> (0 \<le> ?toks ! i \<and> ?toks ! i < int (num_embeddings (embedding m)))"
      by simp
    with that mem have "Embedding_forward (embedding m) batch = Inl IndexError"
      by (intro Embedding_forward_invalid [where toks = ?toks and t = "?toks ! i"]) auto
    then show ?thesis by (rule CustomTransformer_forward_invalid)
  qed
  from ret tok out fail
  show "\<exists>toks. SmilesDataset_getitem d idx = Inr (toks, lab) \<and>
              toks ! i = ord (s ! i) \<and> \<not> (0 \<le> toks ! i \<and> toks ! i < 128) \<and>
              (\<forall>m batch. num_embeddings (embedding m) = 128 \<and> toks \<in> set batch \<longrightarrow>
                 CustomTransformer_forward m batch = Inl IndexError)"
    by blast
qed

text \<open>
  The theorem at the two-character string \<^verbatim>\<open>C\<close>, \<^verbatim>\<open>U+20AC\<close> (code point 8364), with
  the label 0 and with the label \<open>2\<^sup>6\<^sup>3\<close>.
\<close>

theorem getitem_code_point_out_of_vocabulary_witness:
  "(\<exists>toks. SmilesDataset_getitem
              (SmilesDataset_init [[Abs_code_point 67, Abs_code_point 8364]] [0] 100) 0
             = Inr (toks, 0) \<and>
      toks ! 1 = 8364 \<and> CustomTransformer_forward example_model [toks] = Inl IndexError) \<and>
   SmilesDataset_getitem
     (SmilesDataset_init [[Abs_code_point 67, Abs_code_point 8364]] [2 ^ 63] 100) 0
     = Inl RuntimeError"
proof -
  let ?s = "[Abs_code_point 67, Abs_code_point 8364]"
  let ?d = "SmilesDataset_init [?s] [0] 100"
  let ?e = "SmilesDataset_init [?s] [2 ^ 63] 100"
  have a: "getitem_list (smiles ?d) 0 = Inr ?s"
    by (simp add: SmilesDataset_init_def getitem_list_def)
  have b: "getitem_list (labels ?d) 0 = Inr 0"
    by (simp add: SmilesDataset_init_def getitem_list_def)
  have c: "1 < length ?s" by simp
  have o: "ord (?s ! 1) = 8364" by (simp add: ord_Abs)
  have d: "128 \<le> ord (?s ! 1)" unfolding o by simp
  have zero: "in_int64 0" by (simp add: in_int64_def)
  from getitem_code_point_out_of_vocabulary [OF a b c d] zero
  obtain toks where t: "SmilesDataset_getitem ?d 0 = Inr (toks, 0)"
    "toks ! 1 = ord (?s ! 1)"
    "\<forall>m batch. num_embeddings (embedding m) = 128 \<and> toks \<in> set batch \<longrightarrow>
              CustomTransformer_forward m batch = Inl IndexError"
    by blast
  have n: "num_embeddings (embedding example_model) = 128"
    by (simp add: example_model_def)
  from t(3) n have "CustomTransformer_forward example_model [toks] = Inl IndexError"
    by simp
  moreover have "toks ! 1 = 8364" using t(2) o by simp
  ultimately have first: "\<exists>toks. SmilesDataset_getitem ?d 0 = Inr (toks, 0) \<and>
      toks ! 1 = 8364 \<and> CustomTransformer_forward example_model [toks] = Inl IndexError"
    using t(1) by blast
  have a': "getitem_list (smiles ?e) 0 = Inr ?s"
    by (simp add: SmilesDataset_init_def getitem_list_def)
  have b': "getitem_list (labels ?e) 0 = Inr (2 ^ 63)"
    by (simp add: SmilesDataset_init_def getitem_list_def)
  have big: "\<not> in_int64 (2 ^ 63)" by (simp add: in_int64_def)
  from getitem_code_point_out_of_vocabulary [OF a' b' c d] big
  have "SmilesDataset_getitem ?e 0 = Inl RuntimeError" by blast
  with first show ?thesis by blast
qed

section \<open>Construction\<close>


lemma Linear_init_ok:
  "0 \<le> i \<Longrightarrow> 0 \<le> n \<Longrightarrow> \<exists>l. Linear_init g i n = Inr l \<and> wf_Linear (nat i) (nat n) l"
  by (simp add: Linear_init_def wf_Linear_def is_mat_def)

lemma Linear_init_neg:
  "i < 0 \<or> n < 0 \<Longrightarrow> Linear_init g i n = Inl RuntimeError"
  by (simp add: Linear_init_def)

lemma LayerNorm_init_ok:
  "0 \<le> n \<Longrightarrow> \<exists>l. LayerNorm_init n = Inr l \<and> wf_LayerNorm (nat n) l"
  by (simp add: LayerNorm_init_def wf_LayerNorm_def)

lemma Embedding_init_ok:
  "0 \<le> n \<Longrightarrow> 0 \<le> d \<Longrightarrow> \<exists>e. Embedding_init g n d = Inr e \<and> wf_Embedding (nat n) (nat d) e"
  by (simp add: Embedding_init_def wf_Embedding_def is_mat_def)

lemma MultiHeadSelfAttention_init_ok:
  assumes "H \<noteq> 0" "0 \<le> E"
  shows "\<exists>m. MultiHeadSelfAttention_init g E H = Inr m \<and> num_heads m = H \<and>
           embed_dim m = E \<and> head_dim m = E div H \<and> wf_MultiHeadSelfAttention (nat E) m"
proof -
  obtain q where q: "Linear_init (sub g 0) E E = Inr q" "wf_Linear (nat E) (nat E) q"
    using Linear_init_ok [OF assms(2) assms(2)] by blast
  obtain k where k: "Linear_init (sub g 1) E E = Inr k" "wf_Linear (nat E) (nat E) k"
    using Linear_init_ok [OF assms(2) assms(2)] by blast
  obtain v where v: "Linear_init (sub g 2) E E = Inr v" "wf_Linear (nat E) (nat E) v"
    using Linear_init_ok [OF assms(2) assms(2)] by blast
  obtain out where out: "Linear_init (sub g 3) E E = Inr out" "wf_Linear (nat E) (nat E) out"
    using Linear_init_ok [OF assms(2) assms(2)] by blast
  show ?thesis
    using assms q k v out
    by (simp add: MultiHeadSelfAttention_init_def wf_MultiHeadSelfAttention_def)
qed

lemma MultiHeadSelfAttention_init_zero:
  "MultiHeadSelfAttention_init g E 0 = Inl ZeroDivisionError"
  by (simp add: MultiHeadSelfAttention_init_def)

lemma MultiHeadSelfAttention_init_neg:
  "H \<noteq> 0 \<Longrightarrow> E < 0 \<Longrightarrow> MultiHeadSelfAttention_init g E H = Inl RuntimeError"
  by (simp add: MultiHeadSelfAttention_init_def Linear_init_neg)

lemma FeedForwardNetwork_init_ok:
  assumes "0 \<le> E" "0 \<le> F"
  shows "\<exists>m. FeedForwardNetwork_init g E F = Inr m \<and> wf_FeedForwardNetwork (nat E) (nat F) m"
proof -
  obtain l1 where l1: "Linear_init (sub g 0) E F = Inr l1" "wf_Linear (nat E) (nat F) l1"
    using Linear_init_ok [OF assms(1) assms(2)] by blast
  obtain l2 where l2: "Linear_init (sub g 1) F E = Inr l2" "wf_Linear (nat F) (nat E) l2"
    using Linear_init_ok [OF assms(2) assms(1)] by blast
  show ?thesis using l1 l2
    by (simp add: FeedForwardNetwork_init_def wf_FeedForwardNetwork_def)
qed

lemma TransformerBlock_init_ok:
  assumes "H \<noteq> 0" "0 \<le> E" "0 \<le> F"
  shows "\<exists>m. TransformerBlock_init g E H F = Inr m \<and> wf_TransformerBlock (nat E) (nat F) m \<and>
           num_heads (attention m) = H \<and> embed_dim (attention m) = E"
proof -
  obtain a where a: "MultiHeadSelfAttention_init (sub g 0) E H = Inr a"
      "wf_MultiHeadSelfAttention (nat E) a" "num_heads a = H" "embed_dim a = E"
    using MultiHeadSelfAttention_init_ok [OF assms(1) assms(2)] by blast
  obtain n where n: "LayerNorm_init E = Inr n" "wf_LayerNorm (nat E) n"
    using LayerNorm_init_ok [OF assms(2)] by blast
  obtain f where f: "FeedForwardNetwork_init (sub g 1) E F = Inr f"
      "wf_FeedForwardNetwork (nat E) (nat F) f"
    using FeedForwardNetwork_init_ok [OF assms(2) assms(3)] by blast
  show ?thesis using a n f
    by (simp add: TransformerBlock_init_def wf_TransformerBlock_def)
qed

lemma init_layers_ok:
  assumes "H \<noteq> 0" "0 \<le> E" "0 \<le> F"
  shows "\<exists>bs. init_layers g E H F ks = Inr bs \<and> length bs = length ks \<and>
           list_all (wf_TransformerBlock (nat E) (nat F)) bs"
proof (induction ks)
  case Nil
  show ?case by simp
next
  case (Cons k ks)
  obtain b where b: "TransformerBlock_init (sub g k) E H F = Inr b"
      "wf_TransformerBlock (nat E) (nat F) b"
    using TransformerBlock_init_ok [OF assms] by blast
  from Cons obtain bs where bs: "init_layers g E H F ks = Inr bs" "length bs = length ks"
      "list_all (wf_TransformerBlock (nat E) (nat F)) bs"
    by blast
  show ?case using b bs by simp
qed

lemma CustomTransformer_init_ok:
  assumes "H \<noteq> 0" "0 \<le> V" "0 \<le> E" "0 \<le> F" "0 \<le> C"
  shows "\<exists>m. CustomTransformer_init g V E H F L C = Inr m \<and>
           wf_CustomTransformer (nat V) (nat E) (nat F) (nat C) m \<and> length (layers m) = nat L"
proof -
  obtain emb where emb: "Embedding_init (sub g 0) V E = Inr emb" "wf_Embedding (nat V) (nat E) emb"
    using Embedding_init_ok [OF assms(2) assms(3)] by blast
  have pos: "zeros_1_100 E = Inr [replicate 100 (replicate (nat E) 0)]"
    using assms(3) by (simp add: zeros_1_100_def)
  have post: "is_tensor3 1 100 (nat E) [replicate 100 (replicate (nat E) (0::real))]"
    by (simp add: is_tensor3_def is_mat_def)
  obtain bs where bs: "init_layers (sub g 1) E H F [0..<nat L] = Inr bs"
      "length bs = length [0..<nat L]" "list_all (wf_TransformerBlock (nat E) (nat F)) bs"
    using init_layers_ok [OF assms(1) assms(3) assms(4)] by blast
  obtain l where l: "Linear_init (sub g 2) E C = Inr l" "wf_Linear (nat E) (nat C) l"
    using Linear_init_ok [OF assms(3) assms(5)] by blast
  show ?thesis using emb pos post bs l
    by (simp add: CustomTransformer_init_def wf_CustomTransformer_def)
qed

section \<open>Linear layers, the view of the heads and divisibility\<close>

lemma is_tensor3_last_dim3: "is_tensor3 b s e x \<Longrightarrow> last_dim3 e x"
  by (simp add: is_tensor3_def is_mat_def last_dim3_def last_dim2_def)

lemma is_tensor3_map_map:
  assumes "is_tensor3 b s e x" "\<And>v. length v = e \<Longrightarrow> length (f v) = e'"
  shows "is_tensor3 b s e' (map (map f) x)"
  using assms by (auto simp: is_tensor3_def is_mat_def)

lemma length_linear_vec: "wf_Linear i n l \<Longrightarrow> length (linear_vec l v) = n"
  by (simp add: wf_Linear_def linear_vec_def is_mat_def)

lemma Linear_forward3_ok:
  assumes "wf_Linear i n l" "is_tensor3 b s i x"
  shows "Linear_forward3 l x = Inr (map (map (linear_vec l)) x)"
    and "is_tensor3 b s n (map (map (linear_vec l)) x)"
proof -
  have "in_features l = i" using assms(1) by (simp add: wf_Linear_def)
  then show "Linear_forward3 l x = Inr (map (map (linear_vec l)) x)"
    using is_tensor3_last_dim3 [OF assms(2)] by (simp add: Linear_forward3_def)
  show "is_tensor3 b s n (map (map (linear_vec l)) x)"
    using assms(2) length_linear_vec [OF assms(1)] by (rule is_tensor3_map_map)
qed

lemma view_split_indivisible:
  assumes "is_tensor3 b s e y" "0 < b" "0 < s" "nat H * nat D \<noteq> e"
  shows "view_split H D y = Inl RuntimeError"
proof -
  from assms(1,2) obtain yb where yb: "yb \<in> set y" "is_mat s e yb"
    by (cases y) (auto simp: is_tensor3_def)
  with assms(3) obtain v where v: "v \<in> set yb" "length v = e"
    by (cases yb) (auto simp: is_mat_def)
  have "\<not> last_dim2 (nat H * nat D) yb"
  proof
    assume "last_dim2 (nat H * nat D) yb"
    then have "length v = nat H * nat D" using v(1) by (simp add: last_dim2_def)
    with v(2) assms(4) show False by simp
  qed
  then have "\<not> last_dim3 (nat H * nat D) y"
    using yb(1) unfolding last_dim3_def by blast
  then show ?thesis by (simp add: view_split_def)
qed

lemma indivisible_heads:
  fixes E H :: int
  assumes "0 < H" "0 \<le> E" "E mod H \<noteq> 0"
  shows "nat H * nat (E div H) \<noteq> nat E"
proof
  assume a: "nat H * nat (E div H) = nat E"
  have d: "0 \<le> E div H" using assms(1,2) by (simp add: pos_imp_zdiv_nonneg_iff)
  have "int (nat H * nat (E div H)) = H * (E div H)"
    using assms(1) d by simp
  with a have "H * (E div H) = E" using assms(2) by simp
  then have "E mod H = 0" by (metis mod_mult_self1_is_0)
  with assms(3) show False by simp
qed

lemma forward_indivisible:
  assumes wf: "wf_MultiHeadSelfAttention (nat E) m"
    and m: "num_heads m = H" "embed_dim m = E"
    and H: "0 < H" and ndiv: "E mod H \<noteq> 0"
    and x: "is_tensor3 b s (nat E) x" "0 < b" "0 < s"
  shows "MultiHeadSelfAttention_forward m x = Inl RuntimeError"
proof -
  have E: "0 \<le> E" using wf m by (auto simp: wf_MultiHeadSelfAttention_def split: if_splits)
  have D: "head_dim m = E div H" using wf m by (simp add: wf_MultiHeadSelfAttention_def)
  have q: "wf_Linear (nat E) (nat E) (query m)"
    using wf by (simp add: wf_MultiHeadSelfAttention_def)
  let ?y = "map (map (linear_vec (query m))) x"
  have "view_split H (E div H) ?y = Inl RuntimeError"
    using Linear_forward3_ok(2) [OF q x(1)] x(2,3) indivisible_heads [OF H E ndiv]
    by (rule view_split_indivisible)
  then have "project_heads m (query m) x = Inl RuntimeError"
    using Linear_forward3_ok(1) [OF q x(1)] m D by (simp add: project_heads_def)
  then show ?thesis by (simp add: MultiHeadSelfAttention_forward_def)
qed

text \<open>
  C2 (as amended). \<^verbatim>\<open>MultiHeadSelfAttention(embed_dim, num_heads)\<close> is constructed for
  every \<open>num_heads \<noteq> 0\<close> and \<open>embed_dim \<ge> 0\<close>, whether or not \<open>num_heads\<close> divides
  \<open>embed_dim\<close>, with \<open>head_dim = embed_dim // num_heads\<close>, and so is
  \<^verbatim>\<open>CustomTransformer\<close> when its other sizes are not negative. Construction fails only
  for \<open>num_heads = 0\<close> (\<open>ZeroDivisionError\<close>) and for a negative \<open>embed_dim\<close>
  (\<open>RuntimeError\<close>). A module with a positive \<open>num_heads\<close> that does not divide
  \<open>embed_dim\<close> fails later: its forward pass raises \<open>RuntimeError\<close> in \<^verbatim>\<open>view\<close> on
  every non-empty input.
\<close>

theorem construction_does_not_check_divisibility:
  "(H \<noteq> 0 \<and> 0 \<le> E \<longrightarrow>
      (\<exists>m. MultiHeadSelfAttention_init g E H = Inr m \<and> num_heads m = H \<and> embed_dim m = E \<and>
           head_dim m = E div H \<and> wf_MultiHeadSelfAttention (nat E) m \<and>
           (0 < H \<and> E mod H \<noteq> 0 \<longrightarrow>
              (\<forall>b s x. is_tensor3 b s (nat E) x \<and> 0 < b \<and> 0 < s \<longrightarrow>
                 MultiHeadSelfAttention_forward m x = Inl RuntimeError)))) \<and>
   (H \<noteq> 0 \<and> 0 \<le> V \<and> 0 \<le> E \<and> 0 \<le> F \<and> 0 \<le> C \<longrightarrow>
      (\<exists>m. CustomTransformer_init g V E H F L C = Inr m \<and>
           wf_CustomTransformer (nat V) (nat E) (nat F) (nat C) m \<and>
           length (layers m) = nat L)) \<and>
   (H = 0 \<longrightarrow> MultiHeadSelfAttention_init g E H = Inl ZeroDivisionError) \<and>
   (H \<noteq> 0 \<and> E < 0 \<longrightarrow> MultiHeadSelfAttention_init g E H = Inl RuntimeError)"
proof (intro conjI impI)
  assume a: "H \<noteq> 0 \<and> 0 \<le> E"
  then obtain m where m: "MultiHeadSelfAttention_init g E H = Inr m" "num_heads m = H"
      "embed_dim m = E" "head_dim m = E div H" "wf_MultiHeadSelfAttention (nat E) m"
    using MultiHeadSelfAttention_init_ok [of H E g] by blast
  have "MultiHeadSelfAttention_forward m x = Inl RuntimeError"
    if "0 < H \<and> E mod H \<noteq> 0" "is_tensor3 b s (nat E) x \<and> 0 < b \<and> 0 < s" for b s x
    using forward_indivisible [OF m(5) m(2) m(3)] that by blast
  with m show "\<exists>m. MultiHeadSelfAttention_init g E H = Inr m \<and> num_heads m = H \<and>
      embed_dim m = E \<and> head_dim m = E div H \<and> wf_MultiHeadSelfAttention (nat E) m \<and>
      (0 < H \<and> E mod H \<noteq> 0 \<longrightarrow>
         (\<forall>b s x. is_tensor3 b s (nat E) x \<and> 0 < b \<and> 0 < s \<longrightarrow>
            MultiHeadSelfAttention_forward m x = Inl RuntimeError))"
    by blast
next
  assume "H \<noteq> 0 \<and> 0 \<le> V \<and> 0 \<le> E \<and> 0 \<le> F \<and> 0 \<le> C"
  then show "\<exists>m. CustomTransformer_init g V E H F L C = Inr m \<and>
      wf_CustomTransformer (nat V) (nat E) (nat F) (nat C) m \<and> length (layers m) = nat L"
    using CustomTransformer_init_ok [of H V E F C g L] by blast
next
  assume "H = 0"
  then show "MultiHeadSelfAttention_init g E H = Inl ZeroDivisionError"
    by (simp add: MultiHeadSelfAttention_init_zero)
next
  assume "H \<noteq> 0 \<and> E < 0"
  then show "MultiHeadSelfAttention_init g E H = Inl RuntimeError"
    by (simp add: MultiHeadSelfAttention_init_neg)
qed

text \<open>
  The theorem at \<open>embed_dim = 10\<close>, \<open>num_heads = 3\<close>: the module is built with
  \<open>head_dim = 3\<close> and its forward pass fails on an input of shape \<open>(1, 1, 10)\<close>;
  and at \<open>num_heads = 0\<close> and at \<open>embed_dim = -4\<close>, where construction fails.
\<close>

theorem construction_does_not_check_divisibility_witness:
  "(\<exists>m. MultiHeadSelfAttention_init zero_init 10 3 = Inr m \<and> head_dim m = 3 \<and>
        MultiHeadSelfAttention_forward m [[replicate 10 0]] = Inl RuntimeError) \<and>
   (\<exists>m. CustomTransformer_init zero_init 128 10 3 16 2 5 = Inr m \<and> length (layers m) = 2) \<and>
   MultiHeadSelfAttention_init zero_init 10 0 = Inl ZeroDivisionError \<and>
   MultiHeadSelfAttention_init zero_init (- 4) 2 = Inl RuntimeError"
proof -
  note t = construction_does_not_check_divisibility
    [of 3 10 zero_init 128 16 5 2]
  from t obtain m where m: "MultiHeadSelfAttention_init zero_init 10 3 = Inr m"
      "head_dim m = 3"
      "\<forall>b s x. is_tensor3 b s 10 x \<and> 0 < b \<and> 0 < s \<longrightarrow>
            MultiHeadSelfAttention_forward m x = Inl RuntimeError"
    by auto
  have sh: "is_tensor3 1 1 10 [[replicate 10 (0::real)]]"
    by (simp add: is_tensor3_def is_mat_def)
  have "MultiHeadSelfAttention_forward m [[replicate 10 0]] = Inl RuntimeError"
    using m(3) sh by (metis zero_less_one)
  moreover note m(2)
  moreover have "\<exists>m. CustomTransformer_init zero_init 128 10 3 16 2 5 = Inr m \<and>
      length (layers m) = 2"
    using t by auto
  moreover have "MultiHeadSelfAttention_init zero_init 10 0 = Inl ZeroDivisionError"
    using construction_does_not_check_divisibility [of 0 10 zero_init] by simp
  moreover have "MultiHeadSelfAttention_init zero_init (- 4) 2 = Inl RuntimeError"
    using construction_does_not_check_divisibility [of 2 "- 4" zero_init] by simp
  ultimately show ?thesis using m(1) by blast
qed

text \<open>
  C2 as stated fails: 3 does not divide 10, and the constructor returns a module.
\<close>

theorem construction_indivisible_counterexample:
  "map_sum id head_dim (MultiHeadSelfAttention_init zero_init 10 3) = Inr 3 \<and>
   (10::int) mod 3 \<noteq> 0"
  by (simp add: MultiHeadSelfAttention_init_def Linear_init_def)

section \<open>Lists of lists\<close>

lemma map2_map_map: "map2 f (map g xs) (map h xs) = map (\<lambda>x. f (g x) (h x)) xs"
  by (induction xs) auto

lemma map_upt_cong: "(\<And>i. i < n \<Longrightarrow> f i = g i) \<Longrightarrow> map f [0..<n] = map g [0..<n]"
  by simp

lemma length_columns [simp]: "length (columns n M) = n"
  by (simp add: columns_def)

lemma nth_columns: "j < n \<Longrightarrow> columns n M ! j = map (\<lambda>row. row ! j) M"
  by (simp add: columns_def)

lemma columns_map_upt:
  "columns s (map f [0..<h]) = map (\<lambda>i. map (\<lambda>k. f k ! i) [0..<h]) [0..<s]"
  by (simp add: columns_def)

lemma columns_columns:
  assumes "is_mat r c M"
  shows "columns r (columns c M) = M"
proof (rule nth_equalityI)
  show "length (columns r (columns c M)) = length M"
    using assms by (simp add: is_mat_def)
next
  fix i assume "i < length (columns r (columns c M))"
  then have i: "i < r" by simp
  then have len: "length (M ! i) = c" using assms by (simp add: is_mat_def)
  have "columns r (columns c M) ! i = map (\<lambda>j. M ! i ! j) [0..<c]"
    using i assms by (simp add: nth_columns columns_def is_mat_def)
  also have "\<dots> = M ! i" using map_nth [of "M ! i"] len by simp
  finally show "columns r (columns c M) ! i = M ! i" .
qed

lemma length_chunks [simp]: "length (chunks H D v) = H"
  by (simp add: chunks_def)

lemma nth_chunks: "h < H \<Longrightarrow> chunks H D v ! h = take D (drop (h * D) v)"
  by (simp add: chunks_def)

lemma length_piece:
  assumes "length v = H * D" "h < H"
  shows "length (take D (drop (h * D) v)) = D"
proof -
  have "Suc h * D \<le> H * D" using assms(2) by (intro mult_le_mono1) simp
  then show ?thesis using assms(1) by simp
qed

lemma dim1_member:
  assumes "is_tensor3 b s e x" "xb \<in> set x"
  shows "dim1 x = s" and "length xb = s"
proof -
  show l: "length xb = s" using assms by (simp add: is_tensor3_def is_mat_def)
  from assms(2) obtain y ys where x: "x = y # ys" by (cases x) auto
  then have "length y = s" using assms(1) by (simp add: is_tensor3_def is_mat_def)
  then show "dim1 x = s" using x by (simp add: dim1_def)
qed

lemma dim2_member:
  assumes "is_tensor3 b s e x" "xb \<in> set x" "v \<in> set xb"
  shows "dim2 x = e"
proof -
  from assms(2) obtain y ys where x: "x = y # ys" by (cases x) auto
  then have y: "is_mat s e y" using assms(1) by (simp add: is_tensor3_def)
  have "length xb = s" using assms(1,2) by (rule dim1_member(2))
  with assms(3) have "0 < s" by (cases xb) auto
  with y obtain w ws where "y = w # ws" by (cases y) (auto simp: is_mat_def)
  with y show ?thesis using x by (simp add: dim2_def dim1_def is_mat_def)
qed

section \<open>Heads\<close>

lemma heads_facts:
  assumes "wf_MultiHeadSelfAttention E m" "heads_divide m"
  shows "0 < num_heads m" "0 < head_dim m" "nat (num_heads m) * nat (head_dim m) = E" "0 < E"
proof -
  have e: "embed_dim m = int E" and d: "head_dim m = embed_dim m div num_heads m"
    using assms(1) by (simp_all add: wf_MultiHeadSelfAttention_def)
  show h: "0 < num_heads m" using assms(2) by (simp add: heads_divide_def)
  have pos: "0 < embed_dim m" and dv: "embed_dim m mod num_heads m = 0"
    using assms(2) by (simp_all add: heads_divide_def)
  have eq: "num_heads m * head_dim m = embed_dim m"
    using d dv by (metis add.right_neutral mult_div_mod_eq)
  show hd: "0 < head_dim m"
    using eq pos h by (metis mult_pos_pos not_less_iff_gr_or_eq zero_less_mult_pos)
  have "int (nat (num_heads m) * nat (head_dim m)) = num_heads m * head_dim m"
    using h hd by simp
  with eq e show "nat (num_heads m) * nat (head_dim m) = E" by linarith
  show "0 < E" using pos e by simp
qed

lemma is_mat_head_rows:
  assumes "wf_MultiHeadSelfAttention E m" "heads_divide m" "wf_Linear E E l"
    and "h < nat (num_heads m)"
  shows "is_mat (length xb) (nat (head_dim m)) (head_rows m l xb h)"
proof -
  have "length (linear_vec l v) = nat (num_heads m) * nat (head_dim m)" for v
    using length_linear_vec [OF assms(3)] heads_facts(3) [OF assms(1,2)] by simp
  then have "length (take (nat (head_dim m)) (drop (h * nat (head_dim m)) (linear_vec l v)))
      = nat (head_dim m)" for v
    using assms(4) by (rule length_piece)
  then show ?thesis by (simp add: is_mat_def head_rows_def)
qed

lemma view_split_ok:
  assumes "0 \<le> H" "0 \<le> D" "is_tensor3 b s (nat H * nat D) y"
  shows "view_split H D y = Inr (map (map (chunks (nat H) (nat D))) y)"
  using assms is_tensor3_last_dim3 [OF assms(3)] by (simp add: view_split_def)

lemma project_heads_eq:
  assumes wf: "wf_MultiHeadSelfAttention E m" and hd: "heads_divide m"
    and l: "wf_Linear E E l" and x: "is_tensor3 b s E x"
  shows "project_heads m l x =
           Inr (map (\<lambda>xb. map (head_rows m l xb) [0..<nat (num_heads m)]) x)"
proof -
  let ?H = "nat (num_heads m)" and ?D = "nat (head_dim m)"
  let ?y = "map (map (linear_vec l)) x"
  note hf = heads_facts [OF wf hd]
  have lin: "Linear_forward3 l x = Inr ?y"
    using l x by (rule Linear_forward3_ok(1))
  have "is_tensor3 b s E ?y" using l x by (rule Linear_forward3_ok(2))
  then have "is_tensor3 b s (?H * ?D) ?y" using hf(3) by simp
  then have vs: "view_split (num_heads m) (head_dim m) ?y = Inr (map (map (chunks ?H ?D)) ?y)"
    using hf(1,2) by (intro view_split_ok) simp_all
  have "columns ?H (map (chunks ?H ?D) (map (linear_vec l) xb)) = map (head_rows m l xb) [0..<?H]"
    for xb
    unfolding columns_def head_rows_def by (simp add: nth_chunks)
  then have "transpose_1_2 ?H (map (map (chunks ?H ?D)) ?y)
      = map (\<lambda>xb. map (head_rows m l xb) [0..<?H]) x"
    by (simp add: transpose_1_2_def)
  with lin vs show ?thesis by (simp add: project_heads_def)
qed

lemma matmul2_columns:
  assumes "is_mat s d Km"
  shows "matmul2 s Qm (columns d Km) = map (\<lambda>q. map (dot q) Km) Qm"
  using columns_columns [OF assms] by (simp add: matmul2_def)

lemma attention_core:
  assumes wf: "wf_MultiHeadSelfAttention E m" and hd: "heads_divide m"
    and x: "is_tensor3 b s E x"
  shows "softmax (div_scalar
           (matmul (dim1 x)
              (map (\<lambda>xb. map (head_rows m (query m) xb) [0..<nat (num_heads m)]) x)
              (transpose_last (nat (head_dim m))
                 (map (\<lambda>xb. map (head_rows m (key m) xb) [0..<nat (num_heads m)]) x)))
           (sqrt (real_of_int (head_dim m))))
         = map (\<lambda>xb. map (sample_weights m xb) [0..<nat (num_heads m)]) x"
proof -
  let ?H = "nat (num_heads m)" and ?D = "nat (head_dim m)"
  have k: "wf_Linear E E (key m)" using wf by (simp add: wf_MultiHeadSelfAttention_def)
  have one: "map (\<lambda>r. softmax_vec (map (\<lambda>e. e / sqrt (real_of_int (head_dim m))) r))
               (matmul2 (dim1 x) (head_rows m (query m) xb h)
                  (columns ?D (head_rows m (key m) xb h)))
             = sample_weights m xb h"
    if "xb \<in> set x" "h < ?H" for xb h
  proof -
    have "dim1 x = length xb" using dim1_member [OF x that(1)] by simp
    moreover have "is_mat (length xb) ?D (head_rows m (key m) xb h)"
      using wf hd k that(2) by (rule is_mat_head_rows)
    ultimately show ?thesis
      by (simp add: matmul2_columns sample_weights_def comp_def)
  qed
  show ?thesis
    unfolding softmax_def div_scalar_def matmul_def transpose_last_def
    by (simp add: map2_map_map comp_def one cong: map_cong)
qed

lemma length_sample_weights: "length (sample_weights m xb h) = length xb"
  by (simp add: sample_weights_def head_rows_def)

lemma length_sample_head_output: "length (sample_head_output m xb h) = length xb"
  by (simp add: sample_head_output_def matmul2_def length_sample_weights)

lemma length_sample_head_output_row:
  "i < length xb \<Longrightarrow> length (sample_head_output m xb h ! i) = nat (head_dim m)"
  by (simp add: sample_head_output_def matmul2_def length_sample_weights)

lemma length_concat_heads:
  assumes "\<And>h. h < H \<Longrightarrow> length (f h) = D"
  shows "length (concat (map f [0..<H])) = H * D"
  using assms by (induction H) simp_all

lemma view_merge_ok:
  assumes "\<And>tb p. tb \<in> set t \<Longrightarrow> p \<in> set tb \<Longrightarrow> length (concat p) = E"
  shows "view_merge E t = Inr (map (map concat) t)"
  using assms by (simp add: view_merge_def)

lemma forward_eq_sample:
  assumes wf: "wf_MultiHeadSelfAttention E m" and hd: "heads_divide m"
    and x: "is_tensor3 b s E x"
  shows "MultiHeadSelfAttention_forward m x = Inr (map (sample_attention m) x)"
proof -
  let ?H = "nat (num_heads m)" and ?D = "nat (head_dim m)"
  note hf = heads_facts [OF wf hd]
  have q: "wf_Linear E E (query m)" and k: "wf_Linear E E (key m)"
    and v: "wf_Linear E E (value' m)" and out: "wf_Linear E E (fc_out m)"
    using wf by (simp_all add: wf_MultiHeadSelfAttention_def)
  let ?W = "map (\<lambda>xb. map (sample_weights m xb) [0..<?H]) x"
  let ?V = "map (\<lambda>xb. map (head_rows m (value' m) xb) [0..<?H]) x"
  let ?joined = "\<lambda>xb. map (\<lambda>i. concat (map (\<lambda>h. sample_head_output m xb h ! i) [0..<?H]))
                        [0..<length xb]"
  have mm: "matmul ?D ?W ?V = map (\<lambda>xb. map (sample_head_output m xb) [0..<?H]) x"
    by (simp add: matmul_def map2_map_map sample_head_output_def)
  have tr: "transpose_1_2 (dim1 x) (map (\<lambda>xb. map (sample_head_output m xb) [0..<?H]) x)
      = map (\<lambda>xb. map (\<lambda>i. map (\<lambda>h. sample_head_output m xb h ! i) [0..<?H]) [0..<length xb]) x"
    using dim1_member(1) [OF x] dim1_member(2) [OF x]
    by (simp add: transpose_1_2_def columns_map_upt)
  have len: "length (concat (map (\<lambda>h. sample_head_output m xb h ! i) [0..<?H])) = E"
    if "i < length xb" for xb i
    using length_concat_heads [of ?H "\<lambda>h. sample_head_output m xb h ! i" ?D]
      length_sample_head_output_row [OF that] hf(3) by simp
  have e2: "dim2 x = E" if "xb \<in> set x" "i < length xb" for xb i
    using x that(1) nth_mem [OF that(2)] by (rule dim2_member)
  have vm: "view_merge (dim2 x)
      (map (\<lambda>xb. map (\<lambda>i. map (\<lambda>h. sample_head_output m xb h ! i) [0..<?H]) [0..<length xb]) x)
      = Inr (map ?joined x)"
  proof -
    have "view_merge (dim2 x)
        (map (\<lambda>xb. map (\<lambda>i. map (\<lambda>h. sample_head_output m xb h ! i) [0..<?H]) [0..<length xb]) x)
      = Inr (map (map concat)
        (map (\<lambda>xb. map (\<lambda>i. map (\<lambda>h. sample_head_output m xb h ! i) [0..<?H]) [0..<length xb]) x))"
      by (rule view_merge_ok) (auto simp: len e2)
    then show ?thesis by (simp add: comp_def)
  qed
  have shape: "is_tensor3 b s E (map ?joined x)"
    using x by (auto simp: is_tensor3_def is_mat_def len)
  have fin: "Linear_forward3 (fc_out m) (map ?joined x) = Inr (map (sample_attention m) x)"
    using Linear_forward3_ok(1) [OF out shape] by (simp add: sample_attention_def comp_def)
  show ?thesis
    unfolding MultiHeadSelfAttention_forward_def
    by (simp add: project_heads_eq [OF wf hd q x] project_heads_eq [OF wf hd k x]
        project_heads_eq [OF wf hd v x] attention_core [OF wf hd x] mm tr vm fin)
qed

section \<open>The tensor program and the indexed sums\<close>

lemma sum_list_nth_lessThan: "sum_list xs = (\<Sum>i<length xs. xs ! i)"
  by (simp add: sum_list_sum_nth atLeast0LessThan)

lemma dot_sum:
  assumes "length u = n" "length v = n"
  shows "dot u v = (\<Sum>c<n. u ! c * v ! c)"
  using assms by (simp add: dot_def sum_list_nth_lessThan)

lemma linear_vec_spec:
  assumes "wf_Linear i n l" "length v = i"
  shows "linear_vec l v = spec_linear l v"
proof (rule nth_equalityI)
  show "length (linear_vec l v) = length (spec_linear l v)"
    using assms(1) by (simp add: length_linear_vec [OF assms(1)] spec_linear_def wf_Linear_def)
next
  fix r assume "r < length (linear_vec l v)"
  then have r: "r < n" by (simp add: length_linear_vec [OF assms(1)])
  have w: "length (weight l ! r) = i" "length (weight l) = n" "length (bias l) = n"
    "in_features l = i" "out_features l = n"
    using assms(1) r by (simp_all add: wf_Linear_def is_mat_def)
  show "linear_vec l v ! r = spec_linear l v ! r"
    using r w dot_sum [OF w(1) assms(2)] by (simp add: linear_vec_def spec_linear_def)
qed

lemma piece_spec:
  assumes "length v = H * D" "h < H"
  shows "take D (drop (h * D) v) = spec_head D h v"
proof (rule nth_equalityI)
  show "length (take D (drop (h * D) v)) = length (spec_head D h v)"
    using length_piece [OF assms] by (simp add: spec_head_def)
next
  fix d assume "d < length (take D (drop (h * D) v))"
  then have d: "d < D" by simp
  have "Suc h * D \<le> H * D" using assms(2) by (intro mult_le_mono1) simp
  then have "h * D + d < length v" using d assms(1) by simp
  then show "take D (drop (h * D) v) ! d = spec_head D h v ! d"
    using d by (simp add: spec_head_def)
qed

lemma head_rows_spec:
  assumes wf: "wf_MultiHeadSelfAttention E m" and hd: "heads_divide m"
    and l: "wf_Linear E E l" and xb: "is_mat s E xb"
    and h: "h < nat (num_heads m)" and i: "i < s"
  shows "head_rows m l xb h ! i = spec_head (nat (head_dim m)) h (spec_linear l (xb ! i))"
proof -
  have len: "length (xb ! i) = E" and s: "length xb = s"
    using xb i by (simp_all add: is_mat_def)
  have "length (linear_vec l (xb ! i)) = nat (num_heads m) * nat (head_dim m)"
    using length_linear_vec [OF l] heads_facts(3) [OF wf hd] by simp
  then have "take (nat (head_dim m)) (drop (h * nat (head_dim m)) (linear_vec l (xb ! i)))
      = spec_head (nat (head_dim m)) h (linear_vec l (xb ! i))"
    using h by (rule piece_spec)
  then show ?thesis
    using i s linear_vec_spec [OF l len] by (simp add: head_rows_def)
qed

lemma length_head_rows [simp]: "length (head_rows m l xb h) = length xb"
  by (simp add: head_rows_def)

lemma score_spec:
  assumes wf: "wf_MultiHeadSelfAttention E m" and hd: "heads_divide m"
    and xb: "is_mat s E xb" and h: "h < nat (num_heads m)" and i: "i < s" and j: "j < s"
  shows "dot (head_rows m (query m) xb h ! i) (head_rows m (key m) xb h ! j)
           / sqrt (real_of_int (head_dim m))
         = spec_score m xb h i j"
proof -
  have q: "wf_Linear E E (query m)" and k: "wf_Linear E E (key m)"
    using wf by (simp_all add: wf_MultiHeadSelfAttention_def)
  let ?D = "nat (head_dim m)"
  have lq: "length (head_rows m (query m) xb h ! i) = ?D"
    using head_rows_spec [OF wf hd q xb h i] by (simp add: spec_head_def)
  have lk: "length (head_rows m (key m) xb h ! j) = ?D"
    using head_rows_spec [OF wf hd k xb h j] by (simp add: spec_head_def)
  show ?thesis
    unfolding spec_score_def dot_sum [OF lq lk]
    by (simp add: head_rows_spec [OF wf hd q xb h i] head_rows_spec [OF wf hd k xb h j])
qed

lemma weight_spec:
  assumes wf: "wf_MultiHeadSelfAttention E m" and hd: "heads_divide m"
    and xb: "is_mat s E xb" and h: "h < nat (num_heads m)" and i: "i < s" and j: "j < s"
  shows "sample_weights m xb h ! i ! j = spec_weight m xb h i j"
proof -
  have s: "length xb = s" using xb by (simp add: is_mat_def)
  let ?c = "sqrt (real_of_int (head_dim m))"
  let ?Q = "head_rows m (query m) xb h" and ?K = "head_rows m (key m) xb h"
  let ?row = "map (\<lambda>k. dot (?Q ! i) k / ?c) ?K"
  have row: "?row ! k = spec_score m xb h i k" if "k < s" for k
    using that s score_spec [OF wf hd xb h i that] by simp
  have "sum_list (map exp ?row) = (\<Sum>k<s. exp (?row ! k))"
    using s by (simp add: sum_list_nth_lessThan)
  also have "\<dots> = (\<Sum>k<s. exp (spec_score m xb h i k))"
    by (rule sum.cong) (simp_all add: row)
  finally have den: "sum_list (map exp ?row) = (\<Sum>k<s. exp (spec_score m xb h i k))" .
  have "sample_weights m xb h ! i ! j = exp (?row ! j) / sum_list (map exp ?row)"
    using i j s by (simp add: sample_weights_def softmax_vec_def)
  then show ?thesis
    using den row [OF j] s by (simp add: spec_weight_def)
qed

lemma length_sample_weights_row:
  "i < length xb \<Longrightarrow> length (sample_weights m xb h ! i) = length xb"
  by (simp add: sample_weights_def softmax_vec_def)

lemma head_output_spec:
  assumes wf: "wf_MultiHeadSelfAttention E m" and hd: "heads_divide m"
    and xb: "is_mat s E xb" and h: "h < nat (num_heads m)" and i: "i < s"
  shows "sample_head_output m xb h ! i = spec_head_output m xb h i"
proof -
  have s: "length xb = s" using xb by (simp add: is_mat_def)
  have v: "wf_Linear E E (value' m)" using wf by (simp add: wf_MultiHeadSelfAttention_def)
  let ?D = "nat (head_dim m)"
  let ?W = "sample_weights m xb h" and ?V = "head_rows m (value' m) xb h"
  have entry: "dot (?W ! i) (map (\<lambda>row. row ! d) ?V)
      = (\<Sum>j<s. spec_weight m xb h i j * spec_head ?D h (spec_linear (value' m) (xb ! j)) ! d)"
    for d
  proof -
    have lw: "length (?W ! i) = s" using i s by (simp add: length_sample_weights_row)
    have lv: "length (map (\<lambda>row. row ! d) ?V) = s" using s by simp
    have "dot (?W ! i) (map (\<lambda>row. row ! d) ?V)
        = (\<Sum>j<s. ?W ! i ! j * map (\<lambda>row. row ! d) ?V ! j)"
      using lw lv by (rule dot_sum)
    also have "\<dots> = (\<Sum>j<s. spec_weight m xb h i j *
        spec_head ?D h (spec_linear (value' m) (xb ! j)) ! d)"
    proof (rule sum.cong)
      fix j assume "j \<in> {..<s}"
      then have j: "j < s" by simp
      show "?W ! i ! j * map (\<lambda>row. row ! d) ?V ! j
          = spec_weight m xb h i j * spec_head ?D h (spec_linear (value' m) (xb ! j)) ! d"
        using j s weight_spec [OF wf hd xb h i j] head_rows_spec [OF wf hd v xb h j]
        by simp
    qed simp
    finally show ?thesis .
  qed
  have "sample_head_output m xb h ! i
      = map (\<lambda>d. dot (?W ! i) (map (\<lambda>row. row ! d) ?V)) [0..<?D]"
    using i s
    by (simp add: sample_head_output_def matmul2_def columns_def length_sample_weights comp_def)
  then show ?thesis by (simp add: entry spec_head_output_def s)
qed

lemma sample_attention_spec:
  assumes wf: "wf_MultiHeadSelfAttention E m" and hd: "heads_divide m"
    and xb: "is_mat s E xb"
  shows "sample_attention m xb =
           map (\<lambda>i. spec_linear (fc_out m)
                      (concat (map (\<lambda>h. spec_head_output m xb h i) [0..<nat (num_heads m)])))
             [0..<length xb]"
proof -
  have s: "length xb = s" using xb by (simp add: is_mat_def)
  have out: "wf_Linear E E (fc_out m)" using wf by (simp add: wf_MultiHeadSelfAttention_def)
  let ?H = "nat (num_heads m)"
  have one: "linear_vec (fc_out m) (concat (map (\<lambda>h. sample_head_output m xb h ! i) [0..<?H]))
      = spec_linear (fc_out m) (concat (map (\<lambda>h. spec_head_output m xb h i) [0..<?H]))"
    if i: "i < s" for i
  proof -
    have eq: "map (\<lambda>h. sample_head_output m xb h ! i) [0..<?H]
        = map (\<lambda>h. spec_head_output m xb h i) [0..<?H]"
      using head_output_spec [OF wf hd xb _ i] by simp
    have "length (concat (map (\<lambda>h. spec_head_output m xb h i) [0..<?H]))
        = ?H * nat (head_dim m)"
      by (rule length_concat_heads) (simp add: spec_head_output_def)
    then have "length (concat (map (\<lambda>h. spec_head_output m xb h i) [0..<?H])) = E"
      using heads_facts(3) [OF wf hd] by simp
    then have "linear_vec (fc_out m) (concat (map (\<lambda>h. spec_head_output m xb h i) [0..<?H]))
        = spec_linear (fc_out m) (concat (map (\<lambda>h. spec_head_output m xb h i) [0..<?H]))"
      by (rule linear_vec_spec [OF out])
    then show ?thesis unfolding eq .
  qed
  show ?thesis unfolding sample_attention_def using one s by simp
qed

text \<open>
  C1. For a module as \<^verbatim>\<open>__init__\<close> builds it, with a positive number of heads that
  divides the positive embedding dimension, and for every input \<open>x\<close> of shape
  \<open>(batch, seq_len, embed_dim)\<close>, \<^verbatim>\<open>forward\<close> returns the reference multi-head scaled
  dot-product attention \<open>spec_attention\<close>: three independent linear projections, each cut
  into \<open>num_heads\<close> heads of \<open>head_dim\<close> entries, the scores \<open>Q \<cdot> K / sqrt head_dim\<close> per
  head, their softmax over the key positions, the sum of the values weighted by it, the
  heads joined and projected once more.
\<close>

theorem forward_is_multi_head_attention:
  assumes "wf_MultiHeadSelfAttention E m" and "heads_divide m" and "is_tensor3 b s E x"
  shows "MultiHeadSelfAttention_forward m x = Inr (spec_attention m x)"
proof -
  have "map (sample_attention m) x = spec_attention m x"
    unfolding spec_attention_def
  proof (rule map_cong [OF refl])
    fix xb assume "xb \<in> set x"
    then have "is_mat s E xb" using assms(3) by (simp add: is_tensor3_def)
    with assms(1,2) show "sample_attention m xb =
        map (\<lambda>i. spec_linear (fc_out m)
                   (concat (map (\<lambda>h. spec_head_output m xb h i) [0..<nat (num_heads m)])))
          [0..<length xb]"
      by (rule sample_attention_spec)
  qed
  then show ?thesis using forward_eq_sample [OF assms] by simp
qed

lemma wf_example_attention: "wf_MultiHeadSelfAttention 2 example_attention"
  by (simp add: wf_MultiHeadSelfAttention_def example_attention_def example_linear_def
      wf_Linear_def is_mat_def)

lemma heads_divide_example_attention: "heads_divide example_attention"
  by (simp add: heads_divide_def example_attention_def)

lemma upt_2: "[0..<2] = [0, 1]"
  by (simp add: upt_rec)

lemma lessThan_2: "{..<(2::nat)} = {0, 1}"
  by auto

lemma spec_example:
  "spec_attention example_attention [[[0, 0], [9 / 1000, 0]]]
     = [[[- (9 / 1000), 0], [- (9 / 1000), 0]]]"
  by (simp add: spec_attention_def spec_head_output_def spec_weight_def spec_score_def
      spec_head_def spec_linear_def example_attention_def example_linear_def upt_2 lessThan_2)

text \<open>
  The theorem at the example module and an input of shape \<open>(1, 2, 2)\<close>, where the
  reference evaluates to \<open>(-0.009, 0)\<close> at both positions.
\<close>

theorem forward_is_multi_head_attention_witness:
  "MultiHeadSelfAttention_forward example_attention [[[0, 0], [9 / 1000, 0]]]
     = Inr (spec_attention example_attention [[[0, 0], [9 / 1000, 0]]]) \<and>
   spec_attention example_attention [[[0, 0], [9 / 1000, 0]]]
     = [[[- (9 / 1000), 0], [- (9 / 1000), 0]]]"
proof -
  have "is_tensor3 1 2 2 [[[0, 0], [9 / 1000, 0 :: real]]]"
    by (simp add: is_tensor3_def is_mat_def)
  with wf_example_attention heads_divide_example_attention
  have "MultiHeadSelfAttention_forward example_attention [[[0, 0], [9 / 1000, 0]]]
     = Inr (spec_attention example_attention [[[0, 0], [9 / 1000, 0]]])"
    by (rule forward_is_multi_head_attention)
  then show ?thesis using spec_example by simp
qed

section \<open>Shapes through the block\<close>

lemma length_sample_attention: "length (sample_attention m xb) = length xb"
  by (simp add: sample_attention_def)

lemma is_tensor3_attention:
  assumes "wf_MultiHeadSelfAttention E m" "is_tensor3 b s E x"
  shows "is_tensor3 b s E (map (sample_attention m) x)"
proof -
  have out: "wf_Linear E E (fc_out m)"
    using assms(1) by (simp add: wf_MultiHeadSelfAttention_def)
  have "is_mat s E (sample_attention m xb)" if "xb \<in> set x" for xb
  proof -
    have "length xb = s" using assms(2) that by (rule dim1_member(2))
    then show ?thesis
      by (auto simp: is_mat_def sample_attention_def length_linear_vec [OF out])
  qed
  then show ?thesis using assms(2) by (auto simp: is_tensor3_def)
qed

lemma attention_shape:
  assumes "wf_MultiHeadSelfAttention E m" "heads_divide m" "is_tensor3 b s E x"
  shows "\<exists>y. MultiHeadSelfAttention_forward m x = Inr y \<and> is_tensor3 b s E y"
  using forward_eq_sample [OF assms] is_tensor3_attention [OF assms(1,3)] by blast

lemma is_tensor3_relu: "is_tensor3 b s e x \<Longrightarrow> is_tensor3 b s e (relu x)"
  by (auto simp: is_tensor3_def is_mat_def relu_def)

lemma ffn_eq:
  assumes "wf_FeedForwardNetwork E F m" "is_tensor3 b s E x"
  shows "FeedForwardNetwork_forward m x =
           Inr (map (map (linear_vec (fc2 m))) (relu (map (map (linear_vec (fc1 m))) x)))"
    and "is_tensor3 b s E (map (map (linear_vec (fc2 m))) (relu (map (map (linear_vec (fc1 m))) x)))"
proof -
  have l1: "wf_Linear E F (fc1 m)" and l2: "wf_Linear F E (fc2 m)"
    using assms(1) by (simp_all add: wf_FeedForwardNetwork_def)
  have h: "is_tensor3 b s F (relu (map (map (linear_vec (fc1 m))) x))"
    using Linear_forward3_ok(2) [OF l1 assms(2)] by (rule is_tensor3_relu)
  show "FeedForwardNetwork_forward m x =
           Inr (map (map (linear_vec (fc2 m))) (relu (map (map (linear_vec (fc1 m))) x)))"
    using Linear_forward3_ok(1) [OF l1 assms(2)] Linear_forward3_ok(1) [OF l2 h]
    by (simp add: FeedForwardNetwork_forward_def)
  show "is_tensor3 b s E (map (map (linear_vec (fc2 m))) (relu (map (map (linear_vec (fc1 m))) x)))"
    using l2 h by (rule Linear_forward3_ok(2))
qed

lemma ffn_shape:
  assumes "wf_FeedForwardNetwork E F m" "is_tensor3 b s E x"
  shows "\<exists>y. FeedForwardNetwork_forward m x = Inr y \<and> is_tensor3 b s E y"
  using ffn_eq [OF assms] by blast

lemma lengths_tensor3:
  assumes "is_tensor3 b s e x"
  shows "map (map length) x = replicate b (replicate s e)"
proof -
  have "map length xb = replicate s e" if "xb \<in> set x" for xb
    using assms that by (auto simp: is_tensor3_def is_mat_def intro!: replicate_eqI)
  then show ?thesis using assms by (auto simp: is_tensor3_def intro!: replicate_eqI)
qed

lemma add3_ok:
  assumes "is_tensor3 b s e x" "is_tensor3 b s e y"
  shows "add3 x y = Inr (map2 (map2 (map2 (+))) x y)"
    and "is_tensor3 b s e (map2 (map2 (map2 (+))) x y)"
proof -
  show "add3 x y = Inr (map2 (map2 (map2 (+))) x y)"
    using lengths_tensor3 [OF assms(1)] lengths_tensor3 [OF assms(2)] by (simp add: add3_def)
  have "is_mat s e (map2 (map2 (+)) xb yb)" if "(xb, yb) \<in> set (zip x y)" for xb yb
  proof -
    have xb: "is_mat s e xb" and yb: "is_mat s e yb"
      using assms set_zip_leftD [OF that] set_zip_rightD [OF that] by (simp_all add: is_tensor3_def)
    have "length (map2 (+) u v) = e" if "(u, v) \<in> set (zip xb yb)" for u v
      using xb yb set_zip_leftD [OF that] set_zip_rightD [OF that] by (simp add: is_mat_def)
    then show ?thesis using xb yb by (auto simp: is_mat_def)
  qed
  then show "is_tensor3 b s e (map2 (map2 (map2 (+))) x y)"
    using assms by (auto simp: is_tensor3_def)
qed

lemma length_layer_norm_vec:
  assumes "wf_LayerNorm n nrm" "length v = n"
  shows "length (layer_norm_vec nrm v) = n"
  using assms by (simp add: layer_norm_vec_def wf_LayerNorm_def)

lemma LayerNorm_forward_ok:
  assumes "wf_LayerNorm e nrm" "is_tensor3 b s e x"
  shows "LayerNorm_forward nrm x = Inr (map (map (layer_norm_vec nrm)) x)"
    and "is_tensor3 b s e (map (map (layer_norm_vec nrm)) x)"
proof -
  have "normalized_shape nrm = e" using assms(1) by (simp add: wf_LayerNorm_def)
  then show "LayerNorm_forward nrm x = Inr (map (map (layer_norm_vec nrm)) x)"
    using is_tensor3_last_dim3 [OF assms(2)] by (simp add: LayerNorm_forward_def)
  show "is_tensor3 b s e (map (map (layer_norm_vec nrm)) x)"
    using assms(2) length_layer_norm_vec [OF assms(1)] by (rule is_tensor3_map_map)
qed

text \<open>One block, with the intermediate tensors named.\<close>

lemma block_steps:
  assumes wf: "wf_TransformerBlock E F blk" and hd: "heads_divide (attention blk)"
    and x: "is_tensor3 b s E x"
  shows "\<exists>a x1 f y.
           MultiHeadSelfAttention_forward (attention blk) x = Inr a \<and> is_tensor3 b s E a \<and>
           x1 = map (map (layer_norm_vec (norm1 blk))) (map2 (map2 (map2 (+))) x a) \<and>
           is_tensor3 b s E x1 \<and>
           FeedForwardNetwork_forward (ffn blk) x1 = Inr f \<and> is_tensor3 b s E f \<and>
           y = map (map (layer_norm_vec (norm2 blk))) (map2 (map2 (map2 (+))) x1 f) \<and>
           is_tensor3 b s E y \<and>
           TransformerBlock_forward blk x = Inr y"
proof -
  have a: "wf_MultiHeadSelfAttention E (attention blk)" and n1: "wf_LayerNorm E (norm1 blk)"
    and f: "wf_FeedForwardNetwork E F (ffn blk)" and n2: "wf_LayerNorm E (norm2 blk)"
    using wf by (simp_all add: wf_TransformerBlock_def)
  obtain att where att: "MultiHeadSelfAttention_forward (attention blk) x = Inr att"
      "is_tensor3 b s E att"
    using attention_shape [OF a hd x] by blast
  let ?s1 = "map2 (map2 (map2 (+))) x att"
  note s1 = add3_ok [OF x att(2)]
  let ?x1 = "map (map (layer_norm_vec (norm1 blk))) ?s1"
  note x1 = LayerNorm_forward_ok [OF n1 s1(2)]
  obtain ff where ff: "FeedForwardNetwork_forward (ffn blk) ?x1 = Inr ff" "is_tensor3 b s E ff"
    using ffn_shape [OF f x1(2)] by blast
  let ?s2 = "map2 (map2 (map2 (+))) ?x1 ff"
  note s2 = add3_ok [OF x1(2) ff(2)]
  let ?y = "map (map (layer_norm_vec (norm2 blk))) ?s2"
  note y = LayerNorm_forward_ok [OF n2 s2(2)]
  have "TransformerBlock_forward blk x = Inr ?y"
    using att(1) s1(1) x1(1) ff(1) s2(1) y(1) by (simp add: TransformerBlock_forward_def)
  with att x1(2) ff y(2) show ?thesis by blast
qed

lemma block_shape:
  assumes "wf_TransformerBlock E F blk" "heads_divide (attention blk)" "is_tensor3 b s E x"
  shows "\<exists>y. TransformerBlock_forward blk x = Inr y \<and> is_tensor3 b s E y"
  using block_steps [OF assms] by blast

lemma apply_layers_shape:
  assumes "list_all (wf_TransformerBlock E F) ls"
    and "list_all (\<lambda>blk. heads_divide (attention blk)) ls"
    and "is_tensor3 b s E x"
  shows "\<exists>y. apply_layers ls x = Inr y \<and> is_tensor3 b s E y"
  using assms
proof (induction ls arbitrary: x)
  case Nil
  then show ?case by simp
next
  case (Cons blk ls)
  from Cons.prems obtain y where y: "TransformerBlock_forward blk x = Inr y" "is_tensor3 b s E y"
    using block_shape [of E F blk b s x] by auto
  from Cons.IH [OF _ _ y(2)] Cons.prems(1,2)
  obtain z where "apply_layers ls y = Inr z" "is_tensor3 b s E z" by auto
  with y(1) show ?case by simp
qed

lemma wf_example_block: "wf_TransformerBlock 2 2 example_block"
  using wf_example_attention
  by (simp add: wf_TransformerBlock_def example_block_def wf_LayerNorm_def
      wf_FeedForwardNetwork_def example_linear_def wf_Linear_def is_mat_def)

lemma attention_example_block: "attention example_block = example_attention"
  by (simp add: example_block_def)

text \<open>
  C8. For modules as the constructors build them, with heads that divide the embedding
  dimension, and every input \<open>x\<close> of shape \<open>(batch, seq_len, embed_dim)\<close>:
  \<^verbatim>\<open>MultiHeadSelfAttention.forward\<close>, \<^verbatim>\<open>FeedForwardNetwork.forward\<close> and
  \<^verbatim>\<open>TransformerBlock.forward\<close> each return a tensor of the shape of \<open>x\<close>, and so does
  the block applied \<open>N\<close> times in a row, for every \<open>N\<close>.
\<close>

theorem forward_preserves_shape:
  assumes "wf_MultiHeadSelfAttention E a" and "heads_divide a"
    and "wf_FeedForwardNetwork E F f"
    and "wf_TransformerBlock E F' blk" and "heads_divide (attention blk)"
    and "is_tensor3 b s E x"
  shows "(\<exists>y. MultiHeadSelfAttention_forward a x = Inr y \<and> is_tensor3 b s E y) \<and>
         (\<exists>y. FeedForwardNetwork_forward f x = Inr y \<and> is_tensor3 b s E y) \<and>
         (\<exists>y. TransformerBlock_forward blk x = Inr y \<and> is_tensor3 b s E y) \<and>
         (\<forall>N. \<exists>y. apply_layers (replicate N blk) x = Inr y \<and> is_tensor3 b s E y)"
proof (intro conjI allI)
  show "\<exists>y. MultiHeadSelfAttention_forward a x = Inr y \<and> is_tensor3 b s E y"
    using assms(1,2,6) by (rule attention_shape)
  show "\<exists>y. FeedForwardNetwork_forward f x = Inr y \<and> is_tensor3 b s E y"
    using assms(3,6) by (rule ffn_shape)
  show "\<exists>y. TransformerBlock_forward blk x = Inr y \<and> is_tensor3 b s E y"
    using assms(4,5,6) by (rule block_shape)
next
  fix N
  have "list_all (wf_TransformerBlock E F') (replicate N blk)"
    using assms(4) by (simp add: list_all_iff)
  moreover have "list_all (\<lambda>blk. heads_divide (attention blk)) (replicate N blk)"
    using assms(5) by (simp add: list_all_iff)
  ultimately show "\<exists>y. apply_layers (replicate N blk) x = Inr y \<and> is_tensor3 b s E y"
    using assms(6) by (rule apply_layers_shape)
qed

text \<open>
  The theorem at the example block, its attention and feed-forward modules and an input
  of shape \<open>(1, 2, 2)\<close>, with the block applied three times.
\<close>

theorem forward_preserves_shape_witness:
  "(\<exists>y. MultiHeadSelfAttention_forward example_attention [[[0, 0], [9 / 1000, 0]]] = Inr y \<and>
        is_tensor3 1 2 2 y) \<and>
   (\<exists>y. FeedForwardNetwork_forward (ffn example_block) [[[0, 0], [9 / 1000, 0]]] = Inr y \<and>
        is_tensor3 1 2 2 y) \<and>
   (\<exists>y. TransformerBlock_forward example_block [[[0, 0], [9 / 1000, 0]]] = Inr y \<and>
        is_tensor3 1 2 2 y) \<and>
   (\<exists>y. apply_layers [example_block, example_block, example_block] [[[0, 0], [9 / 1000, 0]]]
          = Inr y \<and> is_tensor3 1 2 2 y)"
proof -
  have sh: "is_tensor3 1 2 2 [[[0, 0], [9 / 1000, 0 :: real]]]"
    by (simp add: is_tensor3_def is_mat_def)
  have f: "wf_FeedForwardNetwork 2 2 (ffn example_block)"
    using wf_example_block by (simp add: wf_TransformerBlock_def)
  have hd: "heads_divide (attention example_block)"
    using heads_divide_example_attention by (simp add: attention_example_block)
  note t = forward_preserves_shape
    [OF wf_example_attention heads_divide_example_attention f wf_example_block hd sh]
  have r: "replicate 3 example_block = [example_block, example_block, example_block]"
    by (simp add: numeral_3_eq_3)
  from t have "\<exists>y. apply_layers (replicate 3 example_block) [[[0, 0], [9 / 1000, 0]]] = Inr y \<and>
      is_tensor3 1 2 2 y"
    by blast
  with t show ?thesis unfolding r by blast
qed

section \<open>Normalisation and residual sums\<close>

lemma mean_spec: "mean v = spec_mean v"
  by (simp add: mean_def spec_mean_def sum_list_nth_lessThan)

lemma variance_spec:
  "variance v = (\<Sum>d<length v. (v ! d - spec_mean v)\<^sup>2) / real (length v)"
proof -
  have "sum_list (map (\<lambda>e. (e - spec_mean v)\<^sup>2) v) = (\<Sum>d<length v. (v ! d - spec_mean v)\<^sup>2)"
  proof -
    have "sum_list (map (\<lambda>e. (e - spec_mean v)\<^sup>2) v)
        = (\<Sum>d<length v. map (\<lambda>e. (e - spec_mean v)\<^sup>2) v ! d)"
      using sum_list_nth_lessThan [of "map (\<lambda>e. (e - spec_mean v)\<^sup>2) v"] by simp
    also have "\<dots> = (\<Sum>d<length v. (v ! d - spec_mean v)\<^sup>2)"
      by (rule sum.cong) simp_all
    finally show ?thesis .
  qed
  then show ?thesis by (simp add: variance_def mean_def mean_spec [symmetric])
qed

lemma layer_norm_vec_spec:
  assumes "wf_LayerNorm n nrm" "length v = n"
  shows "layer_norm_vec nrm v = spec_normalize nrm v"
proof (rule nth_equalityI)
  show "length (layer_norm_vec nrm v) = length (spec_normalize nrm v)"
    using length_layer_norm_vec [OF assms] assms(2) by (simp add: spec_normalize_def)
next
  fix d assume "d < length (layer_norm_vec nrm v)"
  then have d: "d < n" using length_layer_norm_vec [OF assms] by simp
  have l: "length (ln_weight nrm) = n" "length (ln_bias nrm) = n"
    using assms(1) by (simp_all add: wf_LayerNorm_def)
  show "layer_norm_vec nrm v ! d = spec_normalize nrm v ! d"
    using d l assms(2)
    by (simp add: layer_norm_vec_def spec_normalize_def spec_std_def variance_spec mean_spec)
qed

lemma residual_spec:
  assumes "is_tensor3 b s e x" "is_tensor3 b s e y"
  shows "map2 (map2 (map2 (+))) x y = spec_residual x y"
proof -
  have lx: "length x = b" and ly: "length y = b"
    using assms by (simp_all add: is_tensor3_def)
  have row: "map2 (map2 (+)) (x ! n) (y ! n)
      = map (\<lambda>i. map (\<lambda>d. x ! n ! i ! d + y ! n ! i ! d) [0..<length (x ! n ! i)])
          [0..<length (x ! n)]"
    if n: "n < b" for n
  proof -
    have mx: "is_mat s e (x ! n)" and my: "is_mat s e (y ! n)"
      using assms n lx ly by (simp_all add: is_tensor3_def)
    have vec: "map2 (+) (x ! n ! i) (y ! n ! i)
        = map (\<lambda>d. x ! n ! i ! d + y ! n ! i ! d) [0..<length (x ! n ! i)]"
      if i: "i < s" for i
    proof -
      have "length (x ! n ! i) = e" "length (y ! n ! i) = e"
        using mx my i by (simp_all add: is_mat_def)
      then show ?thesis by (intro nth_equalityI) simp_all
    qed
    show ?thesis
      using mx my vec by (intro nth_equalityI) (simp_all add: is_mat_def)
  qed
  show ?thesis
    unfolding spec_residual_def using lx ly row by (intro nth_equalityI) simp_all
qed

text \<open>
  C5. For a block as \<^verbatim>\<open>__init__\<close> builds it, with heads that divide the embedding
  dimension, and every input \<open>x\<close> of shape \<open>(batch, seq_len, embed_dim)\<close>,
  \<^verbatim>\<open>TransformerBlock.forward\<close> computes the two residual sublayers in sequence:
  \<open>x1 = normalize (x + attention x)\<close> with the parameters of \<^verbatim>\<open>norm1\<close>, then
  \<open>normalize (x1 + feed_forward x1)\<close> with those of \<^verbatim>\<open>norm2\<close>. Here \<open>normalize\<close> maps
  \<open>spec_normalize\<close> over every position of every sample: each embedding vector has its
  mean subtracted, is divided by the square root of its variance plus \<open>eps = 1e-5\<close>, and
  is scaled and shifted per dimension.
\<close>

theorem block_is_two_residual_sublayers:
  assumes "wf_TransformerBlock E F blk" and "heads_divide (attention blk)"
    and "is_tensor3 b s E x"
  shows "\<exists>a x1 f.
           MultiHeadSelfAttention_forward (attention blk) x = Inr a \<and>
           x1 = map (map (spec_normalize (norm1 blk))) (spec_residual x a) \<and>
           FeedForwardNetwork_forward (ffn blk) x1 = Inr f \<and>
           TransformerBlock_forward blk x =
             Inr (map (map (spec_normalize (norm2 blk))) (spec_residual x1 f)) \<and>
           eps (norm1 blk) = 1 / 100000 \<and> eps (norm2 blk) = 1 / 100000"
proof -
  have n1: "wf_LayerNorm E (norm1 blk)" and n2: "wf_LayerNorm E (norm2 blk)"
    using assms(1) by (simp_all add: wf_TransformerBlock_def)
  from block_steps [OF assms] obtain a x1 f y where
    a: "MultiHeadSelfAttention_forward (attention blk) x = Inr a" "is_tensor3 b s E a"
    and x1: "x1 = map (map (layer_norm_vec (norm1 blk))) (map2 (map2 (map2 (+))) x a)"
      "is_tensor3 b s E x1"
    and f: "FeedForwardNetwork_forward (ffn blk) x1 = Inr f" "is_tensor3 b s E f"
    and y: "y = map (map (layer_norm_vec (norm2 blk))) (map2 (map2 (map2 (+))) x1 f)"
      "TransformerBlock_forward blk x = Inr y"
    by blast
  have norm: "map (map (layer_norm_vec nrm)) t = map (map (spec_normalize nrm)) t"
    if "wf_LayerNorm E nrm" "is_tensor3 b s E t" for nrm t
  proof -
    have "layer_norm_vec nrm v = spec_normalize nrm v" if "tb \<in> set t" "v \<in> set tb" for tb v
      using \<open>is_tensor3 b s E t\<close> that
      by (intro layer_norm_vec_spec [OF \<open>wf_LayerNorm E nrm\<close>]) (simp add: is_tensor3_def is_mat_def)
    then show ?thesis by simp
  qed
  have s1: "map2 (map2 (map2 (+))) x a = spec_residual x a"
    using assms(3) a(2) by (rule residual_spec)
  have s2: "map2 (map2 (map2 (+))) x1 f = spec_residual x1 f"
    using x1(2) f(2) by (rule residual_spec)
  have e1: "x1 = map (map (spec_normalize (norm1 blk))) (spec_residual x a)"
    using norm [OF n1 add3_ok(2) [OF assms(3) a(2)]] x1(1) s1 by simp
  have e2: "y = map (map (spec_normalize (norm2 blk))) (spec_residual x1 f)"
    using norm [OF n2 add3_ok(2) [OF x1(2) f(2)]] y(1) s2 by simp
  have "eps (norm1 blk) = 1 / 100000" "eps (norm2 blk) = 1 / 100000"
    using n1 n2 by (simp_all add: wf_LayerNorm_def)
  with a(1) e1 f(1) y(2) e2 show ?thesis by blast
qed

lemma sqrt_121: "sqrt (121 / 4000000) = 11 / 2000"
  by (rule real_sqrt_unique) (simp_all add: power2_eq_square)

lemma example_attention_run:
  "MultiHeadSelfAttention_forward example_attention [[[0, 0], [9 / 1000, 0]]]
     = Inr [[[- (9 / 1000), 0], [- (9 / 1000), 0]]]"
proof -
  have sh: "is_tensor3 1 2 2 [[[0, 0], [9 / 1000, 0 :: real]]]"
    by (simp add: is_tensor3_def is_mat_def)
  show ?thesis
    unfolding forward_eq_sample [OF wf_example_attention heads_divide_example_attention sh]
    by (simp add: sample_attention_def sample_head_output_def sample_weights_def head_rows_def
        softmax_vec_def matmul2_def columns_def dot_def linear_vec_def
        example_attention_def example_linear_def upt_2)
qed

lemma example_block_run:
  "TransformerBlock_forward example_block [[[0, 0], [9 / 1000, 0]]]
     = Inr [[[- (9 / 11), 9 / 11], [0, 0]]]"
  unfolding TransformerBlock_forward_def attention_example_block example_attention_run
  by (simp add: add3_def LayerNorm_forward_def last_dim3_def last_dim2_def layer_norm_vec_def
      mean_def variance_def FeedForwardNetwork_forward_def Linear_forward3_def linear_vec_def
      dot_def relu_def example_block_def example_linear_def power2_eq_square sqrt_121)

text \<open>
  The theorem at the example block and an input of shape \<open>(1, 2, 2)\<close>, where the block
  returns \<open>(-9/11, 9/11)\<close> at the first position and \<open>(0, 0)\<close> at the second.
\<close>

theorem block_is_two_residual_sublayers_witness:
  "\<exists>a x1 f.
     MultiHeadSelfAttention_forward (attention example_block) [[[0, 0], [9 / 1000, 0]]] = Inr a \<and>
     x1 = map (map (spec_normalize (norm1 example_block)))
            (spec_residual [[[0, 0], [9 / 1000, 0]]] a) \<and>
     FeedForwardNetwork_forward (ffn example_block) x1 = Inr f \<and>
     [[[- (9 / 11), 9 / 11], [0, 0]]] =
       map (map (spec_normalize (norm2 example_block))) (spec_residual x1 f) \<and>
     TransformerBlock_forward example_block [[[0, 0], [9 / 1000, 0]]]
       = Inr [[[- (9 / 11), 9 / 11], [0, 0]]]"
proof -
  have sh: "is_tensor3 1 2 2 [[[0, 0], [9 / 1000, 0 :: real]]]"
    by (simp add: is_tensor3_def is_mat_def)
  have hd: "heads_divide (attention example_block)"
    using heads_divide_example_attention by (simp add: attention_example_block)
  from block_is_two_residual_sublayers [OF wf_example_block hd sh]
  obtain a x1 f where
    a: "MultiHeadSelfAttention_forward (attention example_block) [[[0, 0], [9 / 1000, 0]]] = Inr a"
    and x1: "x1 = map (map (spec_normalize (norm1 example_block)))
            (spec_residual [[[0, 0], [9 / 1000, 0]]] a)"
    and f: "FeedForwardNetwork_forward (ffn example_block) x1 = Inr f"
    and y: "TransformerBlock_forward example_block [[[0, 0], [9 / 1000, 0]]] =
       Inr (map (map (spec_normalize (norm2 example_block))) (spec_residual x1 f))"
    by blast
  from y have eq: "[[[- (9 / 11), 9 / 11], [0, 0]]] =
       map (map (spec_normalize (norm2 example_block))) (spec_residual x1 f)"
    unfolding example_block_run by (simp only: sum.inject)
  have "MultiHeadSelfAttention_forward (attention example_block) [[[0, 0], [9 / 1000, 0]]] = Inr a \<and>
     x1 = map (map (spec_normalize (norm1 example_block)))
            (spec_residual [[[0, 0], [9 / 1000, 0]]] a) \<and>
     FeedForwardNetwork_forward (ffn example_block) x1 = Inr f \<and>
     [[[- (9 / 11), 9 / 11], [0, 0]]] =
       map (map (spec_normalize (norm2 example_block))) (spec_residual x1 f) \<and>
     TransformerBlock_forward example_block [[[0, 0], [9 / 1000, 0]]]
       = Inr [[[- (9 / 11), 9 / 11], [0, 0]]]"
    using a x1 f eq example_block_run by (intro conjI)
  then show ?thesis
    apply -
    apply (rule exI [where x = a])
    apply (rule exI [where x = x1])
    apply (rule exI [where x = f])
    apply assumption
    done
qed

section \<open>Embedding and positional encoding\<close>

lemma Embedding_forward_ok:
  assumes "wf_Embedding V E emb" "is_mat b s x" "valid_ids V x"
  shows "Embedding_forward emb x = Inr (map (map (\<lambda>t. emb_weight emb ! nat t)) x)"
    and "is_tensor3 b s E (map (map (\<lambda>t. emb_weight emb ! nat t)) x)"
proof -
  have n: "num_embeddings emb = V" and w: "is_mat V E (emb_weight emb)"
    using assms(1) by (simp_all add: wf_Embedding_def)
  show "Embedding_forward emb x = Inr (map (map (\<lambda>t. emb_weight emb ! nat t)) x)"
    using assms(3) n by (simp add: Embedding_forward_def)
  have "length (emb_weight emb ! nat t) = E" if "row \<in> set x" "t \<in> set row" for row t
  proof -
    have "0 \<le> t \<and> t < int V" using assms(3) that by (simp add: valid_ids_def)
    then have "nat t < V" by linarith
    then have "nat t < length (emb_weight emb)" using w by (simp add: is_mat_def)
    then show ?thesis using w by (simp add: is_mat_def)
  qed
  then show "is_tensor3 b s E (map (map (\<lambda>t. emb_weight emb ! nat t)) x)"
    using assms(2) by (auto simp: is_tensor3_def is_mat_def)
qed

lemma add_positional_ok:
  assumes e: "is_tensor3 b s E e" and pr: "is_mat s E pr"
  shows "add_positional e [pr] = Inr (map (\<lambda>eb. map2 (map2 (+)) eb pr) e)"
    and "is_tensor3 b s E (map (\<lambda>eb. map2 (map2 (+)) eb pr) e)"
proof -
  have lp: "map length pr = replicate s E"
    using pr by (auto simp: is_mat_def intro!: replicate_eqI)
  have le: "map length eb = replicate s E" if "eb \<in> set e" for eb
    using e that by (auto simp: is_tensor3_def is_mat_def intro!: replicate_eqI)
  show "add_positional e [pr] = Inr (map (\<lambda>eb. map2 (map2 (+)) eb pr) e)"
    using lp le by (simp add: add_positional_def)
  have "is_mat s E (map2 (map2 (+)) eb pr)" if "eb \<in> set e" for eb
  proof -
    have eb: "is_mat s E eb" using e that by (simp add: is_tensor3_def)
    have "length (map2 (+) u v) = E" if "(u, v) \<in> set (zip eb pr)" for u v
      using eb pr set_zip_leftD [OF that] set_zip_rightD [OF that] by (simp add: is_mat_def)
    then show ?thesis using eb pr by (auto simp: is_mat_def)
  qed
  then show "is_tensor3 b s E (map (\<lambda>eb. map2 (map2 (+)) eb pr) e)"
    using e by (auto simp: is_tensor3_def)
qed

lemma dim1_mat:
  assumes "is_mat b s x" "x \<noteq> []"
  shows "dim1 x = s"
  using assms by (cases x) (simp_all add: dim1_def is_mat_def)

lemma embed_positional_eq:
  assumes wf: "wf_CustomTransformer V E F C m" and x: "is_mat b s x"
    and s: "s \<le> 100" and ids: "valid_ids V x"
  shows "embed_positional m x =
           Inr (map (\<lambda>row. map2 (map2 (+)) (map (\<lambda>t. emb_weight (embedding m) ! nat t) row)
                              (take s (positional_encoding m ! 0))) x)"
    and "is_tensor3 b s E
           (map (\<lambda>row. map2 (map2 (+)) (map (\<lambda>t. emb_weight (embedding m) ! nat t) row)
                              (take s (positional_encoding m ! 0))) x)"
proof -
  have emb: "wf_Embedding V E (embedding m)"
    and pos: "is_tensor3 1 100 E (positional_encoding m)"
    using wf by (simp_all add: wf_CustomTransformer_def)
  from pos obtain pr where p: "positional_encoding m = [pr]" "is_mat 100 E pr"
    by (cases "positional_encoding m") (auto simp: is_tensor3_def)
  have tk: "is_mat s E (take s pr)"
    using p(2) s by (auto simp: is_mat_def dest: in_set_takeD)
  let ?e = "map (map (\<lambda>t. emb_weight (embedding m) ! nat t)) x"
  note e = Embedding_forward_ok [OF emb x ids]
  note a = add_positional_ok [OF e(2) tk]
  have res: "map (\<lambda>eb. map2 (map2 (+)) eb (take s pr)) ?e
      = map (\<lambda>row. map2 (map2 (+)) (map (\<lambda>t. emb_weight (embedding m) ! nat t) row)
                              (take s (positional_encoding m ! 0))) x"
    using p(1) by (simp add: comp_def)
  show "embed_positional m x =
           Inr (map (\<lambda>row. map2 (map2 (+)) (map (\<lambda>t. emb_weight (embedding m) ! nat t) row)
                              (take s (positional_encoding m ! 0))) x)"
  proof (cases "x = []")
    case True
    then show ?thesis
      using e(1) p(1) by (simp add: embed_positional_def add_positional_def)
  next
    case False
    then have "dim1 x = s" using x by (intro dim1_mat)
    then show ?thesis
      using e(1) a(1) p(1) res by (simp add: embed_positional_def)
  qed
  show "is_tensor3 b s E
           (map (\<lambda>row. map2 (map2 (+)) (map (\<lambda>t. emb_weight (embedding m) ! nat t) row)
                              (take s (positional_encoding m ! 0))) x)"
    using a(2) unfolding res .
qed


lemma wf_example_model: "wf_CustomTransformer 128 2 2 2 example_model"
proof -
  have "is_mat 128 2 (map (\<lambda>t. if t = 1 then [9 / 1000, 0] else [0, 0 :: real]) [0..<128])"
    by (simp add: is_mat_def)
  moreover have "is_tensor3 1 100 2 [replicate 100 [0, 0 :: real]]"
    by (simp add: is_tensor3_def is_mat_def)
  ultimately show ?thesis
    using wf_example_block
    by (simp add: wf_CustomTransformer_def example_model_def wf_Embedding_def
        example_linear_def wf_Linear_def is_mat_def)
qed

text \<open>
  C4. For a model as \<^verbatim>\<open>__init__\<close> builds it and every token tensor \<open>x\<close> of shape
  \<open>(batch, seq_len)\<close> with \<open>seq_len \<le> 100\<close> (the length of the positional table) and
  all token ids in \<open>[0, vocab_size)\<close>, the first statement of \<^verbatim>\<open>forward\<close> returns a
  tensor \<open>t\<close> of shape \<open>(batch, seq_len, embed_dim)\<close> with
  \<open>t[n][i][d] = embedding.weight[x[n][i]][d] + positional_encoding[0][i][d]\<close>. The stage
  is a function of the two parameter tensors alone and returns nothing but \<open>t\<close>: a model
  that agrees on them gives the same result, and no parameter is written.
\<close>

theorem embed_positional_is_lookup_plus_position:
  assumes "wf_CustomTransformer V E F C m" and "is_mat b s x" and "s \<le> 100"
    and "valid_ids V x"
  shows "\<exists>t. embed_positional m x = Inr t \<and> is_tensor3 b s E t \<and>
           (\<forall>n i d. n < b \<and> i < s \<and> d < E \<longrightarrow>
              t ! n ! i ! d =
                emb_weight (embedding m) ! nat (x ! n ! i) ! d +
                positional_encoding m ! 0 ! i ! d) \<and>
           (\<forall>m'. embedding m' = embedding m \<and>
                 positional_encoding m' = positional_encoding m \<longrightarrow>
                 embed_positional m' x = Inr t)"
proof -
  let ?W = "emb_weight (embedding m)" and ?P = "positional_encoding m ! 0"
  let ?t = "map (\<lambda>row. map2 (map2 (+)) (map (\<lambda>t. ?W ! nat t) row) (take s ?P)) x"
  note ep = embed_positional_eq [OF assms]
  have emb: "wf_Embedding V E (embedding m)"
    and pos: "is_tensor3 1 100 E (positional_encoding m)"
    using assms(1) by (simp_all add: wf_CustomTransformer_def)
  have P: "is_mat 100 E ?P"
    using pos by (cases "positional_encoding m") (auto simp: is_tensor3_def)
  have W: "is_mat V E ?W" using emb by (simp add: wf_Embedding_def)
  have entry: "?t ! n ! i ! d = ?W ! nat (x ! n ! i) ! d + ?P ! i ! d"
    if "n < b \<and> i < s \<and> d < E" for n i d
  proof -
    have n: "n < length x" and i: "i < length (x ! n)"
      using that assms(2) by (simp_all add: is_mat_def)
    have "x ! n \<in> set x" "x ! n ! i \<in> set (x ! n)" using n i by simp_all
    then have "0 \<le> x ! n ! i \<and> x ! n ! i < int V"
      using assms(4) unfolding valid_ids_def by blast
    then have "nat (x ! n ! i) < V" by linarith
    then have lw: "length (?W ! nat (x ! n ! i)) = E" using W by (simp add: is_mat_def)
    have lp: "length (?P ! i) = E" "length ?P = 100"
      using P that assms(3) by (simp_all add: is_mat_def)
    show ?thesis using n i that assms(3) lw lp by simp
  qed
  have frame: "embed_positional m' x = Inr ?t"
    if "embedding m' = embedding m \<and> positional_encoding m' = positional_encoding m" for m'
  proof -
    from that have "embed_positional m' x = embed_positional m x"
      by (simp only: embed_positional_def)
    then show ?thesis using ep(1) by simp
  qed
  from ep entry frame show ?thesis by blast
qed

text \<open>
  The theorem at the example model and the token tensor \<open>[[67, 1]]\<close>: the result is the
  embedding of the two tokens, the positional table being zero, and the model without
  its layers gives the same.
\<close>

theorem embed_positional_is_lookup_plus_position_witness:
  "\<exists>t. embed_positional example_model [[67, 1]] = Inr t \<and> is_tensor3 1 2 2 t \<and>
      t ! 0 ! 1 ! 0 = 9 / 1000 \<and> t ! 0 ! 0 ! 0 = 0 \<and>
      embed_positional (example_model\<lparr>layers := []\<rparr>) [[67, 1]] = Inr t"
proof -
  have x: "is_mat 1 2 [[67, 1 :: int]]" by (simp add: is_mat_def)
  have s: "(2::nat) \<le> 100" by simp
  have ids: "valid_ids 128 [[67, 1]]" by (simp add: valid_ids_def)
  from embed_positional_is_lookup_plus_position [OF wf_example_model x s ids]
  obtain t where t: "embed_positional example_model [[67, 1]] = Inr t" "is_tensor3 1 2 2 t"
    and e: "\<forall>n i d. n < 1 \<and> i < 2 \<and> d < 2 \<longrightarrow>
              t ! n ! i ! d =
                emb_weight (embedding example_model) ! nat ([[67, 1]] ! n ! i) ! d +
                positional_encoding example_model ! 0 ! i ! d"
    and fr: "\<forall>m'. embedding m' = embedding example_model \<and>
                 positional_encoding m' = positional_encoding example_model \<longrightarrow>
                 embed_positional m' [[67, 1]] = Inr t"
    by blast
  have c: "embed_positional (example_model\<lparr>layers := []\<rparr>) [[67, 1]] = Inr t"
    using fr by simp
  have "t ! 0 ! 1 ! 0 = emb_weight (embedding example_model) ! nat ([[67, 1]] ! 0 ! 1) ! 0 +
                positional_encoding example_model ! 0 ! 1 ! 0"
    using e by simp
  then have a: "t ! 0 ! 1 ! 0 = 9 / 1000" by (simp add: example_model_def)
  have "t ! 0 ! 0 ! 0 = emb_weight (embedding example_model) ! nat ([[67, 1]] ! 0 ! 0) ! 0 +
                positional_encoding example_model ! 0 ! 0 ! 0"
    using e by simp
  then have b: "t ! 0 ! 0 ! 0 = 0" by (simp add: example_model_def)
  from t a b c show ?thesis by blast
qed


section \<open>The whole forward pass\<close>

lemma apply_layers_chain:
  assumes "apply_layers ls x = Inr y"
  shows "\<exists>xs. length xs = Suc (length ls) \<and> xs ! 0 = x \<and> xs ! length ls = y \<and>
           (\<forall>k<length ls. TransformerBlock_forward (ls ! k) (xs ! k) = Inr (xs ! Suc k))"
  using assms
proof (induction ls arbitrary: x)
  case Nil
  then have "length [x] = Suc (length ([] :: TransformerBlock list)) \<and> [x] ! 0 = x \<and>
      [x] ! length ([] :: TransformerBlock list) = y"
    by simp
  then show ?case by (intro exI [where x = "[x]"]) simp
next
  case (Cons blk ls)
  from Cons.prems obtain z where z: "TransformerBlock_forward blk x = Inr z"
      "apply_layers ls z = Inr y"
    by (auto split: sum.splits)
  from Cons.IH [OF z(2)] obtain xs where xs: "length xs = Suc (length ls)" "xs ! 0 = z"
      "xs ! length ls = y"
      "\<forall>k<length ls. TransformerBlock_forward (ls ! k) (xs ! k) = Inr (xs ! Suc k)"
    by blast
  have step: "TransformerBlock_forward ((blk # ls) ! k) ((x # xs) ! k) = Inr ((x # xs) ! Suc k)"
    if "k < length (blk # ls)" for k
  proof (cases k)
    case 0
    then show ?thesis using z(1) xs(2) by simp
  next
    case (Suc j)
    then show ?thesis using that xs(4) by simp
  qed
  have "length (x # xs) = Suc (length (blk # ls)) \<and> (x # xs) ! 0 = x \<and>
      (x # xs) ! length (blk # ls) = y"
    using xs by simp
  with step show ?case by (intro exI [where x = "x # xs"]) blast
qed
lemma length_linear_vec_nan:
  assumes "wf_Linear i n l"
  shows "length (linear_vec_nan l v) = n"
  using assms length_linear_vec [OF assms] by (simp add: linear_vec_nan_def wf_Linear_def)

lemma Linear_forward2_ok:
  assumes "wf_Linear i n l" "is_mat b i x"
  shows "Linear_forward2 l x = Inr (map (linear_vec_nan l) x)"
    and "is_mat b n (map (linear_vec_nan l) x)"
proof -
  have "in_features l = i" using assms(1) by (simp add: wf_Linear_def)
  then show "Linear_forward2 l x = Inr (map (linear_vec_nan l) x)"
    using assms(2) by (simp add: Linear_forward2_def last_dim2_def is_mat_def)
  show "is_mat b n (map (linear_vec_nan l) x)"
    using assms(2) length_linear_vec_nan [OF assms(1)] by (simp add: is_mat_def)
qed

lemma linear_vec_nan_spec:
  assumes "wf_Linear i n l" "length p = i"
  shows "linear_vec_nan l p = spec_logits l p"
proof (cases "None \<in> set p")
  case True
  then have "\<exists>d<length p. p ! d = None" by (simp add: in_set_conv_nth)
  with True show ?thesis by (simp add: linear_vec_nan_def spec_logits_def)
next
  case False
  then have no: "\<not> (\<exists>d<length p. p ! d = None)" by (metis nth_mem)
  have "linear_vec l (map the p) = spec_linear l (map the p)"
    using assms by (intro linear_vec_spec [OF assms(1)]) simp
  moreover have "in_features l = i" using assms(1) by (simp add: wf_Linear_def)
  ultimately have "map Some (linear_vec l (map the p))
      = map (\<lambda>c. Some ((\<Sum>d<in_features l. weight l ! c ! d * the (p ! d)) + bias l ! c))
          [0..<out_features l]"
    using assms(2) by (simp add: spec_linear_def)
  moreover have "spec_logits l p
      = map (\<lambda>c. Some ((\<Sum>d<in_features l. weight l ! c ! d * the (p ! d)) + bias l ! c))
          [0..<out_features l]"
    unfolding spec_logits_def using no by (simp only: if_False)
  ultimately show ?thesis using False by (simp add: linear_vec_nan_def)
qed

lemma mean_dim1_spec:
  assumes "is_tensor3 b s E x"
  shows "mean_dim1 E x = map (spec_mean_pool E) x"
    and "is_mat b E (map (spec_mean_pool E) x)"
proof -
  have col: "mean_nan (map (\<lambda>row. row ! d) xb)
      = (if length xb = 0 then None
         else Some ((\<Sum>i<length xb. xb ! i ! d) / real (length xb)))" for xb :: mat and d
  proof -
    have "sum_list (map (\<lambda>row. row ! d) xb) = (\<Sum>i<length xb. map (\<lambda>row. row ! d) xb ! i)"
      using sum_list_nth_lessThan [of "map (\<lambda>row. row ! d) xb"] by simp
    also have "\<dots> = (\<Sum>i<length xb. xb ! i ! d)"
      by (rule sum.cong) simp_all
    finally show ?thesis by (simp add: mean_nan_def mean_def)
  qed
  show "mean_dim1 E x = map (spec_mean_pool E) x"
    by (simp add: mean_dim1_def columns_def spec_mean_pool_def col comp_def)
  show "is_mat b E (map (spec_mean_pool E) x)"
    using assms by (simp add: is_mat_def is_tensor3_def spec_mean_pool_def)
qed

text \<open>The stages of the forward pass, with the intermediate tensors named.\<close>

lemma forward_steps:
  assumes wf: "wf_CustomTransformer V E F C m"
    and hd: "list_all (\<lambda>blk. heads_divide (attention blk)) (layers m)"
    and x: "is_mat b s x" and s: "s \<le> 100" and ids: "valid_ids V x"
  shows "\<exists>x0 xL.
           embed_positional m x = Inr x0 \<and> is_tensor3 b s E x0 \<and>
           apply_layers (layers m) x0 = Inr xL \<and> is_tensor3 b s E xL \<and>
           CustomTransformer_forward m x =
             Inr (map (\<lambda>xb. spec_logits (fc m) (spec_mean_pool E xb)) xL) \<and>
           is_mat b C (map (\<lambda>xb. spec_logits (fc m) (spec_mean_pool E xb)) xL)"
proof -
  have ls: "list_all (wf_TransformerBlock E F) (layers m)" and fc: "wf_Linear E C (fc m)"
    and ed: "embedding_dim (embedding m) = E"
    using wf by (simp_all add: wf_CustomTransformer_def wf_Embedding_def)
  obtain x0 where x0: "embed_positional m x = Inr x0" "is_tensor3 b s E x0"
    using embed_positional_eq [OF wf x s ids] by blast
  obtain xL where xL: "apply_layers (layers m) x0 = Inr xL" "is_tensor3 b s E xL"
    using apply_layers_shape [OF ls hd x0(2)] by blast
  note pool = mean_dim1_spec [OF xL(2)]
  note lin = Linear_forward2_ok [OF fc pool(2)]
  have "linear_vec_nan (fc m) (spec_mean_pool E xb) = spec_logits (fc m) (spec_mean_pool E xb)"
    for xb
    by (rule linear_vec_nan_spec [OF fc]) (simp add: spec_mean_pool_def)
  then have eq: "map (linear_vec_nan (fc m)) (map (spec_mean_pool E) xL)
      = map (\<lambda>xb. spec_logits (fc m) (spec_mean_pool E xb)) xL"
    by simp
  have run: "CustomTransformer_forward m x =
      Inr (map (\<lambda>xb. spec_logits (fc m) (spec_mean_pool E xb)) xL)"
    using x0(1) xL(1) pool(1) lin(1) eq ed by (simp add: CustomTransformer_forward_def)
  have "is_mat b C (map (\<lambda>xb. spec_logits (fc m) (spec_mean_pool E xb)) xL)"
    using lin(2) unfolding eq .
  with x0 xL run show ?thesis by blast
qed

lemma embed_positional_entry:
  assumes wf: "wf_CustomTransformer V E F C m" and x: "is_mat b s x"
    and s: "s \<le> 100" and ids: "valid_ids V x"
    and "embed_positional m x = Inr t"
    and "n < b" "i < s" "d < E"
  shows "t ! n ! i ! d =
           emb_weight (embedding m) ! nat (x ! n ! i) ! d + positional_encoding m ! 0 ! i ! d"
proof -
  let ?W = "emb_weight (embedding m)" and ?P = "positional_encoding m ! 0"
  have t: "t = map (\<lambda>row. map2 (map2 (+)) (map (\<lambda>t. ?W ! nat t) row) (take s ?P)) x"
    using embed_positional_eq(1) [OF wf x s ids] assms(5) by simp
  have emb: "wf_Embedding V E (embedding m)"
    and pos: "is_tensor3 1 100 E (positional_encoding m)"
    using wf by (simp_all add: wf_CustomTransformer_def)
  have P: "is_mat 100 E ?P"
    using pos by (cases "positional_encoding m") (auto simp: is_tensor3_def)
  have W: "is_mat V E ?W" using emb by (simp add: wf_Embedding_def)
  have n: "n < length x" and i: "i < length (x ! n)"
    using assms(6,7) x by (simp_all add: is_mat_def)
  have "x ! n \<in> set x" "x ! n ! i \<in> set (x ! n)" using n i by simp_all
  then have "0 \<le> x ! n ! i \<and> x ! n ! i < int V"
    using ids unfolding valid_ids_def by blast
  then have "nat (x ! n ! i) < V" by linarith
  then have lw: "length (?W ! nat (x ! n ! i)) = E" using W by (simp add: is_mat_def)
  have lp: "length (?P ! i) = E" "length ?P = 100"
    using P assms(7) s by (simp_all add: is_mat_def)
  show ?thesis unfolding t using n i assms(7,8) s lw lp by simp
qed

text \<open>
  C6. For a model as \<^verbatim>\<open>__init__\<close> builds it, with heads that divide the embedding
  dimension in every layer, and every token tensor \<open>x\<close> of shape \<open>(batch, seq_len)\<close>
  with \<open>seq_len \<le> 100\<close> and token ids in \<open>[0, vocab_size)\<close>, \<^verbatim>\<open>forward\<close> returns
  logits of shape \<open>(batch, num_classes)\<close>. There are tensors \<open>xs\<^sub>0, \<dots>, xs\<^sub>L\<close> of shape
  \<open>(batch, seq_len, embed_dim)\<close>, \<open>L\<close> the number of layers, such that
  \<^item> \<open>xs\<^sub>0\<close> is the embedding plus positional encoding:
    \<open>xs\<^sub>0[n][i][d] = embedding.weight[x[n][i]][d] + positional_encoding[0][i][d]\<close>;
  \<^item> layer \<open>k\<close>, with its own parameters \<open>layers[k]\<close>, maps \<open>xs\<^sub>k\<close> to \<open>xs\<^sub>k\<^sub>+\<^sub>1\<close>;
  \<^item> the logits of a sample are the final linear projection of the unweighted mean of
    \<open>xs\<^sub>L\<close> over all \<open>seq_len\<close> positions of the sample, padding positions included
    (NaN in every entry when \<open>seq_len = 0\<close> and \<open>embed_dim > 0\<close>).
\<close>

theorem forward_is_embed_blocks_pool_project:
  assumes "wf_CustomTransformer V E F C m"
    and "list_all (\<lambda>blk. heads_divide (attention blk)) (layers m)"
    and "is_mat b s x" and "s \<le> 100" and "valid_ids V x"
  shows "\<exists>xs logits.
           length xs = Suc (length (layers m)) \<and>
           embed_positional m x = Inr (xs ! 0) \<and>
           is_tensor3 b s E (xs ! 0) \<and>
           (\<forall>n i d. n < b \<and> i < s \<and> d < E \<longrightarrow>
              xs ! 0 ! n ! i ! d =
                emb_weight (embedding m) ! nat (x ! n ! i) ! d +
                positional_encoding m ! 0 ! i ! d) \<and>
           (\<forall>k<length (layers m).
              TransformerBlock_forward (layers m ! k) (xs ! k) = Inr (xs ! Suc k)) \<and>
           is_tensor3 b s E (xs ! length (layers m)) \<and>
           CustomTransformer_forward m x = Inr logits \<and>
           is_mat b C logits \<and>
           logits = map (\<lambda>xb. spec_logits (fc m) (spec_mean_pool E xb)) (xs ! length (layers m))"
proof -
  from forward_steps [OF assms] obtain x0 xL where
    x0: "embed_positional m x = Inr x0" "is_tensor3 b s E x0"
    and xL: "apply_layers (layers m) x0 = Inr xL" "is_tensor3 b s E xL"
    and run: "CustomTransformer_forward m x =
             Inr (map (\<lambda>xb. spec_logits (fc m) (spec_mean_pool E xb)) xL)"
    and sh: "is_mat b C (map (\<lambda>xb. spec_logits (fc m) (spec_mean_pool E xb)) xL)"
    by blast
  from apply_layers_chain [OF xL(1)] obtain xs where
    xs: "length xs = Suc (length (layers m))" "xs ! 0 = x0" "xs ! length (layers m) = xL"
      "\<forall>k<length (layers m). TransformerBlock_forward (layers m ! k) (xs ! k) = Inr (xs ! Suc k)"
    by blast
  let ?logits = "map (\<lambda>xb. spec_logits (fc m) (spec_mean_pool E xb)) xL"
  have entries: "\<forall>n i d. n < b \<and> i < s \<and> d < E \<longrightarrow>
      xs ! 0 ! n ! i ! d =
        emb_weight (embedding m) ! nat (x ! n ! i) ! d + positional_encoding m ! 0 ! i ! d"
    using embed_positional_entry [OF assms(1,3,4,5) x0(1)] xs(2) by simp
  have "length xs = Suc (length (layers m)) \<and>
           embed_positional m x = Inr (xs ! 0) \<and>
           is_tensor3 b s E (xs ! 0) \<and>
           (\<forall>n i d. n < b \<and> i < s \<and> d < E \<longrightarrow>
              xs ! 0 ! n ! i ! d =
                emb_weight (embedding m) ! nat (x ! n ! i) ! d +
                positional_encoding m ! 0 ! i ! d) \<and>
           (\<forall>k<length (layers m).
              TransformerBlock_forward (layers m ! k) (xs ! k) = Inr (xs ! Suc k)) \<and>
           is_tensor3 b s E (xs ! length (layers m)) \<and>
           CustomTransformer_forward m x = Inr ?logits \<and>
           is_mat b C ?logits \<and>
           ?logits = map (\<lambda>xb. spec_logits (fc m) (spec_mean_pool E xb)) (xs ! length (layers m))"
    using xs x0 xL(2) run sh entries by simp
  then show ?thesis
    apply -
    apply (rule exI [where x = xs])
    apply (rule exI [where x = ?logits])
    apply assumption
    done
qed

lemma replicate_2: "replicate 2 a = [a, a]"
  by (simp add: numeral_2_eq_2)

lemma example_embed_changed:
  "embed_positional example_model [[67, 1]] = Inr [[[0, 0], [9 / 1000, 0]]]"
proof -
  have x: "is_mat 1 2 [[67, 1 :: int]]" by (simp add: is_mat_def)
  have ids: "valid_ids 128 [[67, 1]]" by (simp add: valid_ids_def)
  have s: "(2::nat) \<le> 100" by simp
  show ?thesis
    unfolding embed_positional_eq(1) [OF wf_example_model x s ids]
    by (simp add: example_model_def replicate_2)
qed

lemma layers_example_model: "layers example_model = [example_block]"
  by (simp add: example_model_def)

lemma fc_example_model: "fc example_model = example_linear [[1, 0], [0, 1]]"
  by (simp add: example_model_def)

lemma heads_divide_example_model:
  "list_all (\<lambda>blk. heads_divide (attention blk)) (layers example_model)"
  using heads_divide_example_attention
  by (simp add: layers_example_model attention_example_block)

lemma example_forward_changed:
  "CustomTransformer_forward example_model [[67, 1]] = Inr [[Some (- (9 / 22)), Some (9 / 22)]]"
  unfolding CustomTransformer_forward_def example_embed_changed layers_example_model
    fc_example_model
  by (simp add: example_block_run mean_dim1_def mean_nan_def columns_def mean_def
      Linear_forward2_def last_dim2_def linear_vec_nan_def linear_vec_def dot_def
      example_linear_def example_model_def upt_2)

lemma spec_logits_no_position:
  "map (\<lambda>xb. spec_logits (fc example_model) (spec_mean_pool 2 xb)) [[]] = [[None, None]]"
proof -
  have pool: "spec_mean_pool 2 [] = [None, None]"
    by (simp add: spec_mean_pool_def upt_2)
  have "\<exists>d<length [None, None :: real option]. [None, None :: real option] ! d = None"
    by (rule exI [of _ 0]) simp
  then have "spec_logits (fc example_model) [None, None] = [None, None]"
    by (simp add: spec_logits_def fc_example_model example_linear_def replicate_2)
  then show ?thesis by (simp add: pool)
qed

lemma tensor3_no_position:
  assumes "is_tensor3 1 0 e t"
  shows "t = [[]]"
proof -
  from assms obtain tb where t: "t = [tb]"
    by (cases t) (auto simp: is_tensor3_def)
  with assms have "tb = []" by (simp add: is_tensor3_def is_mat_def)
  with t show ?thesis by simp
qed

text \<open>
  The theorem at the example model (one layer) and the token tensor \<open>[[67, 1]]\<close>, where
  the logits are \<open>(-9/22, 9/22)\<close>, and at the token tensor \<open>[[]]\<close> of one sample without
  positions, where both logits are NaN.
\<close>

theorem forward_is_embed_blocks_pool_project_witness:
  "(\<exists>xs logits.
     length xs = 2 \<and>
     embed_positional example_model [[67, 1]] = Inr (xs ! 0) \<and>
     xs ! 0 ! 0 ! 1 ! 0 = 9 / 1000 \<and>
     TransformerBlock_forward example_block (xs ! 0) = Inr (xs ! 1) \<and>
     CustomTransformer_forward example_model [[67, 1]] = Inr logits \<and>
     logits = [[Some (- (9 / 22)), Some (9 / 22)]] \<and>
     logits = map (\<lambda>xb. spec_logits (fc example_model) (spec_mean_pool 2 xb)) (xs ! 1)) \<and>
   CustomTransformer_forward example_model [[]] = Inr [[None, None]]"
proof -
  have x: "is_mat 1 2 [[67, 1 :: int]]" by (simp add: is_mat_def)
  have ids: "valid_ids 128 [[67, 1]]" by (simp add: valid_ids_def)
  have s: "(2::nat) \<le> 100" by simp
  from forward_is_embed_blocks_pool_project
    [OF wf_example_model heads_divide_example_model x s ids]
  obtain xs logits where
    len: "length xs = Suc (length (layers example_model))"
    and e: "embed_positional example_model [[67, 1]] = Inr (xs ! 0)"
    and en: "\<forall>n i d. n < 1 \<and> i < 2 \<and> d < 2 \<longrightarrow>
              xs ! 0 ! n ! i ! d =
                emb_weight (embedding example_model) ! nat ([[67, 1]] ! n ! i) ! d +
                positional_encoding example_model ! 0 ! i ! d"
    and st: "\<forall>k<length (layers example_model).
              TransformerBlock_forward (layers example_model ! k) (xs ! k) = Inr (xs ! Suc k)"
    and run: "CustomTransformer_forward example_model [[67, 1]] = Inr logits"
    and lg: "logits = map (\<lambda>xb. spec_logits (fc example_model) (spec_mean_pool 2 xb))
                        (xs ! length (layers example_model))"
    by blast
  have l2: "length xs = 2" using len by (simp add: layers_example_model)
  have "xs ! 0 ! 0 ! 1 ! 0 =
      emb_weight (embedding example_model) ! nat ([[67, 1]] ! 0 ! 1) ! 0 +
      positional_encoding example_model ! 0 ! 1 ! 0"
    using en by simp
  then have v0: "xs ! 0 ! 0 ! 1 ! 0 = 9 / 1000" by (simp add: example_model_def)
  have b: "TransformerBlock_forward example_block (xs ! 0) = Inr (xs ! 1)"
    using st by (simp add: layers_example_model)
  have v: "logits = [[Some (- (9 / 22)), Some (9 / 22)]]"
    using run unfolding example_forward_changed by (simp only: sum.inject)
  have lg': "logits = map (\<lambda>xb. spec_logits (fc example_model) (spec_mean_pool 2 xb)) (xs ! 1)"
    using lg by (simp add: layers_example_model)
  have "length xs = 2 \<and>
     embed_positional example_model [[67, 1]] = Inr (xs ! 0) \<and>
     xs ! 0 ! 0 ! 1 ! 0 = 9 / 1000 \<and>
     TransformerBlock_forward example_block (xs ! 0) = Inr (xs ! 1) \<and>
     CustomTransformer_forward example_model [[67, 1]] = Inr logits \<and>
     logits = [[Some (- (9 / 22)), Some (9 / 22)]] \<and>
     logits = map (\<lambda>xb. spec_logits (fc example_model) (spec_mean_pool 2 xb)) (xs ! 1)"
    using l2 e v0 b run v lg' by (intro conjI)
  then have first: "\<exists>xs logits.
     length xs = 2 \<and>
     embed_positional example_model [[67, 1]] = Inr (xs ! 0) \<and>
     xs ! 0 ! 0 ! 1 ! 0 = 9 / 1000 \<and>
     TransformerBlock_forward example_block (xs ! 0) = Inr (xs ! 1) \<and>
     CustomTransformer_forward example_model [[67, 1]] = Inr logits \<and>
     logits = [[Some (- (9 / 22)), Some (9 / 22)]] \<and>
     logits = map (\<lambda>xb. spec_logits (fc example_model) (spec_mean_pool 2 xb)) (xs ! 1)"
    apply -
    apply (rule exI [where x = xs])
    apply (rule exI [where x = logits])
    apply assumption
    done
  have x': "is_mat 1 0 [[] :: int list]" by (simp add: is_mat_def)
  have ids': "valid_ids 128 [[]]" by (simp add: valid_ids_def)
  have s': "(0::nat) \<le> 100" by simp
  from forward_is_embed_blocks_pool_project
    [OF wf_example_model heads_divide_example_model x' s' ids']
  obtain ys nans where
    sh: "is_tensor3 1 0 2 (ys ! length (layers example_model))"
    and run': "CustomTransformer_forward example_model [[]] = Inr nans"
    and lg0: "nans = map (\<lambda>xb. spec_logits (fc example_model) (spec_mean_pool 2 xb))
                       (ys ! length (layers example_model))"
    by blast
  have "ys ! length (layers example_model) = [[]]"
    using sh by (rule tensor3_no_position)
  then have "nans = [[None, None]]"
    using lg0 spec_logits_no_position by simp
  with run' have "CustomTransformer_forward example_model [[]] = Inr [[None, None]]"
    by simp
  with first show ?thesis by (rule conjI)
qed

section \<open>Padding positions\<close>

lemma example_attention_run_zero:
  "MultiHeadSelfAttention_forward example_attention [[[0, 0], [0, 0]]]
     = Inr [[[0, 0], [0, 0]]]"
proof -
  have sh: "is_tensor3 1 2 2 [[[0, 0], [0, 0 :: real]]]"
    by (simp add: is_tensor3_def is_mat_def)
  show ?thesis
    unfolding forward_eq_sample [OF wf_example_attention heads_divide_example_attention sh]
    by (simp add: sample_attention_def sample_head_output_def sample_weights_def head_rows_def
        softmax_vec_def matmul2_def columns_def dot_def linear_vec_def
        example_attention_def example_linear_def upt_2)
qed

lemma example_block_run_zero:
  "TransformerBlock_forward example_block [[[0, 0], [0, 0]]] = Inr [[[0, 0], [0, 0]]]"
  unfolding TransformerBlock_forward_def attention_example_block example_attention_run_zero
  by (simp add: add3_def LayerNorm_forward_def last_dim3_def last_dim2_def layer_norm_vec_def
      mean_def variance_def FeedForwardNetwork_forward_def Linear_forward3_def linear_vec_def
      dot_def relu_def example_block_def example_linear_def)

lemma example_attention_run_single:
  "MultiHeadSelfAttention_forward example_attention [[[0, 0]]] = Inr [[[0, 0]]]"
proof -
  have sh: "is_tensor3 1 1 2 [[[0, 0 :: real]]]"
    by (simp add: is_tensor3_def is_mat_def)
  show ?thesis
    unfolding forward_eq_sample [OF wf_example_attention heads_divide_example_attention sh]
    by (simp add: sample_attention_def sample_head_output_def sample_weights_def head_rows_def
        softmax_vec_def matmul2_def columns_def dot_def linear_vec_def
        example_attention_def example_linear_def upt_2)
qed

lemma example_block_run_single:
  "TransformerBlock_forward example_block [[[0, 0]]] = Inr [[[0, 0]]]"
  unfolding TransformerBlock_forward_def attention_example_block example_attention_run_single
  by (simp add: add3_def LayerNorm_forward_def last_dim3_def last_dim2_def layer_norm_vec_def
      mean_def variance_def FeedForwardNetwork_forward_def Linear_forward3_def linear_vec_def
      dot_def relu_def example_block_def example_linear_def)

lemma wf_padded_model: "wf_CustomTransformer 128 2 2 2 padded_model"
proof -
  have "is_mat 128 2 (map (\<lambda>t. if t = 0 then [9 / 1000, 0] else [0, 0 :: real]) [0..<128])"
    by (simp add: is_mat_def)
  then show ?thesis
    using wf_example_model
    by (simp add: wf_CustomTransformer_def padded_model_def wf_Embedding_def)
qed

lemma layers_padded_model: "layers padded_model = [example_block]"
  by (simp add: padded_model_def example_model_def)

lemma fc_padded_model: "fc padded_model = example_linear [[1, 0], [0, 1]]"
  by (simp add: padded_model_def example_model_def)

lemma padded_embed_padded:
  "embed_positional padded_model [[67, 0]] = Inr [[[0, 0], [9 / 1000, 0]]]"
proof -
  have x: "is_mat 1 2 [[67, 0 :: int]]" by (simp add: is_mat_def)
  have ids: "valid_ids 128 [[67, 0]]" by (simp add: valid_ids_def)
  have s: "(2::nat) \<le> 100" by simp
  show ?thesis
    unfolding embed_positional_eq(1) [OF wf_padded_model x s ids]
    by (simp add: padded_model_def example_model_def replicate_2)
qed

lemma padded_embed_changed:
  "embed_positional padded_model [[67, 1]] = Inr [[[0, 0], [0, 0]]]"
proof -
  have x: "is_mat 1 2 [[67, 1 :: int]]" by (simp add: is_mat_def)
  have ids: "valid_ids 128 [[67, 1]]" by (simp add: valid_ids_def)
  have s: "(2::nat) \<le> 100" by simp
  show ?thesis
    unfolding embed_positional_eq(1) [OF wf_padded_model x s ids]
    by (simp add: padded_model_def example_model_def replicate_2)
qed

lemma padded_embed_single:
  "embed_positional padded_model [[67]] = Inr [[[0, 0]]]"
proof -
  have x: "is_mat 1 1 [[67 :: int]]" by (simp add: is_mat_def)
  have ids: "valid_ids 128 [[67]]" by (simp add: valid_ids_def)
  have s: "(1::nat) \<le> 100" by simp
  have r: "take 1 (replicate 100 [0, 0 :: real]) = [[0, 0]]"
    by (simp add: take_Suc_conv_app_nth)
  show ?thesis
    unfolding embed_positional_eq(1) [OF wf_padded_model x s ids]
    by (simp add: padded_model_def example_model_def r)
qed

lemma padded_forward_padded:
  "CustomTransformer_forward padded_model [[67, 0]] = Inr [[Some (- (9 / 22)), Some (9 / 22)]]"
  unfolding CustomTransformer_forward_def padded_embed_padded layers_padded_model
    fc_padded_model
  by (simp add: example_block_run mean_dim1_def mean_nan_def columns_def mean_def
      Linear_forward2_def last_dim2_def linear_vec_nan_def linear_vec_def dot_def
      example_linear_def padded_model_def upt_2)

lemma padded_forward_changed:
  "CustomTransformer_forward padded_model [[67, 1]] = Inr [[Some 0, Some 0]]"
  unfolding CustomTransformer_forward_def padded_embed_changed layers_padded_model
    fc_padded_model
  by (simp add: example_block_run_zero mean_dim1_def mean_nan_def columns_def mean_def
      Linear_forward2_def last_dim2_def linear_vec_nan_def linear_vec_def dot_def
      example_linear_def padded_model_def upt_2)

lemma padded_forward_single:
  "CustomTransformer_forward padded_model [[67]] = Inr [[Some 0, Some 0]]"
  unfolding CustomTransformer_forward_def padded_embed_single layers_padded_model
    fc_padded_model
  by (simp add: example_block_run_single mean_dim1_def mean_nan_def columns_def mean_def
      Linear_forward2_def last_dim2_def linear_vec_nan_def linear_vec_def dot_def
      example_linear_def padded_model_def upt_2)

lemma getitem_C_padded:
  "SmilesDataset_getitem (SmilesDataset_init [py_str ''C''] [0] 2) 0 = Inr ([67, 0], 0)"
  by (simp add: SmilesDataset_getitem_def SmilesDataset_init_def getitem_list_def
      zeros_times_def py_str_def ord_Abs tensor_long_list_def tensor_long_def in_int64_def)

lemma forward_eq_spec:
  assumes "wf_MultiHeadSelfAttention E m" "heads_divide m" "is_tensor3 b s E x"
  shows "MultiHeadSelfAttention_forward m x = Inr (spec_attention m x)"
proof -
  have "sample_attention m xb =
        map (\<lambda>i. spec_linear (fc_out m)
                   (concat (map (\<lambda>h. spec_head_output m xb h i) [0..<nat (num_heads m)])))
          [0..<length xb]"
    if "xb \<in> set x" for xb
  proof -
    from that have "is_mat s E xb" using assms(3) by (simp add: is_tensor3_def)
    with assms(1,2) show ?thesis by (rule sample_attention_spec)
  qed
  then have "map (sample_attention m) x = spec_attention m x"
    unfolding spec_attention_def by simp
  then show ?thesis using forward_eq_sample [OF assms] by simp
qed

lemma attention_sums_over_all_positions:
  assumes "wf_MultiHeadSelfAttention E m" "heads_divide m" "is_tensor3 b s E x"
  shows "\<exists>y. MultiHeadSelfAttention_forward m x = Inr y \<and>
           (\<forall>n i. n < b \<and> i < s \<longrightarrow>
              y ! n ! i =
                spec_linear (fc_out m)
                  (concat (map (\<lambda>h. map (\<lambda>d. \<Sum>j<s.
                                     spec_weight m (x ! n) h i j *
                                     spec_head (nat (head_dim m)) h
                                       (spec_linear (value' m) (x ! n ! j)) ! d)
                                   [0..<nat (head_dim m)])
                             [0..<nat (num_heads m)]))) \<and>
           (\<forall>n h i j. n < b \<longrightarrow>
              spec_weight m (x ! n) h i j =
                exp (spec_score m (x ! n) h i j) / (\<Sum>k<s. exp (spec_score m (x ! n) h i k)))"
proof -
  have len: "length x = b" using assms(3) by (simp add: is_tensor3_def)
  have row: "length (x ! n) = s" if "n < b" for n
    using that len by (intro dim1_member(2) [OF assms(3)]) simp
  have out: "spec_attention m x ! n ! i =
      spec_linear (fc_out m)
        (concat (map (\<lambda>h. map (\<lambda>d. \<Sum>j<s.
                           spec_weight m (x ! n) h i j *
                           spec_head (nat (head_dim m)) h
                             (spec_linear (value' m) (x ! n ! j)) ! d)
                         [0..<nat (head_dim m)])
                   [0..<nat (num_heads m)]))"
    if "n < b \<and> i < s" for n i
    using that len row [of n] by (simp add: spec_attention_def spec_head_output_def)
  have w: "spec_weight m (x ! n) h i j =
      exp (spec_score m (x ! n) h i j) / (\<Sum>k<s. exp (spec_score m (x ! n) h i k))"
    if "n < b" for n h i j
    using row [OF that] by (simp add: spec_weight_def)
  from forward_eq_spec [OF assms] out w show ?thesis by blast
qed

lemma pooled_entry:
  assumes "is_tensor3 b s E xL" "n < b" "d < E" "0 < s"
  shows "spec_mean_pool E (xL ! n) ! d = Some ((\<Sum>i<s. xL ! n ! i ! d) / real s)"
proof -
  have "length xL = b" using assms(1) by (simp add: is_tensor3_def)
  then have "length (xL ! n) = s"
    using assms(2) by (intro dim1_member(2) [OF assms(1)]) simp
  then show ?thesis using assms(3,4) by (simp add: spec_mean_pool_def)
qed

lemma forward_pools_all_positions:
  assumes "wf_CustomTransformer V E F C m"
    and "list_all (\<lambda>blk. heads_divide (attention blk)) (layers m)"
    and "is_mat b s x" and "s \<le> 100" and "valid_ids V x"
  shows "\<exists>x0 xL. embed_positional m x = Inr x0 \<and> apply_layers (layers m) x0 = Inr xL \<and>
           is_tensor3 b s E xL \<and>
           CustomTransformer_forward m x =
             Inr (map (\<lambda>xb. spec_logits (fc m) (spec_mean_pool E xb)) xL) \<and>
           (\<forall>n d. n < b \<and> d < E \<and> 0 < s \<longrightarrow>
              spec_mean_pool E (xL ! n) ! d = Some ((\<Sum>i<s. xL ! n ! i ! d) / real s))"
proof -
  from forward_steps [OF assms] obtain x0 xL where
    a: "embed_positional m x = Inr x0" "apply_layers (layers m) x0 = Inr xL"
      "is_tensor3 b s E xL"
      "CustomTransformer_forward m x =
         Inr (map (\<lambda>xb. spec_logits (fc m) (spec_mean_pool E xb)) xL)"
    by blast
  have "\<forall>n d. n < b \<and> d < E \<and> 0 < s \<longrightarrow>
      spec_mean_pool E (xL ! n) ! d = Some ((\<Sum>i<s. xL ! n ! i ! d) / real s)"
    using pooled_entry [OF a(3)] by blast
  with a show ?thesis by blast
qed

text \<open>
  Claim C9. Neither \<open>MultiHeadSelfAttention.forward\<close> nor \<open>CustomTransformer.forward\<close>
  applies a padding mask. The theorem states this of the two functions themselves, over exact
  real arithmetic.

  \<^item> For every well-formed attention module whose head count divides the embedding dimension
    and every input \<open>x\<close> of shape \<open>(b, s, E)\<close>, \<open>MultiHeadSelfAttention_forward\<close> returns a
    tensor whose row at sample \<open>n\<close> and position \<open>i\<close> is the output projection of the
    concatenated heads, each head being the sum over all positions \<open>j < s\<close> of the weight
    of \<open>j\<close> times the value vector of \<open>j\<close>, and each weight being
    \<open>exp (score i j)\<close> divided by the sum of \<open>exp (score i k)\<close> over all \<open>k < s\<close>.
    No position is left out of either sum, whatever the token it came from.
  \<^item> For every well-formed model, and every batch \<open>t\<close> of valid token ids of shape
    \<open>(b', s')\<close> with \<open>s' \<le> 100\<close>, \<open>CustomTransformer_forward\<close> returns the projection of
    the pooled output \<open>xL\<close> of the last block, and for \<open>0 < s'\<close> the pooled entry \<open>d\<close> of sample
    \<open>n\<close> is the sum of \<open>xL ! n ! i ! d\<close> over all positions \<open>i < s'\<close> divided by \<open>s'\<close>.
  \<^item> The dataset item of the string \<open>C\<close> with \<open>max_len = 2\<close> is the token sequence \<open>[67, 0]\<close>:
    position 0 holds the character and position 1 is zero padding. The sequences \<open>[67, 0]\<close>
    and \<open>[67, 1]\<close> have the same shape \<open>(1, 2)\<close> and agree at position 0. Under the single
    parameter set \<open>padded_model\<close> they are embedded differently, and
    \<open>CustomTransformer_forward\<close> returns the logits \<open>(-9/22, 9/22)\<close> for the first and
    \<open>(0, 0)\<close> for the second, so the two outputs differ.
  \<^item> The block output for \<open>[67, 0]\<close> is \<open>(-9/11, 9/11)\<close> at position 0 and \<open>(0, 0)\<close> at the
    padded position 1, so the logits \<open>(-9/22, 9/22)\<close> are the mean over both positions; a
    mean over position 0 alone would be \<open>(-9/11, 9/11)\<close>. The unpadded sequence \<open>[67]\<close> gives
    the logits \<open>(0, 0)\<close>: appending the padding position changes the output as well.
\<close>

theorem padding_content_changes_output:
  assumes "wf_MultiHeadSelfAttention E att" and "heads_divide att" and "is_tensor3 b s E x"
    and "wf_CustomTransformer V E' F C m"
    and "list_all (\<lambda>blk. heads_divide (attention blk)) (layers m)"
    and "is_mat b' s' t" and "s' \<le> 100" and "valid_ids V t"
  shows
    "(\<exists>y. MultiHeadSelfAttention_forward att x = Inr y \<and>
        (\<forall>n i. n < b \<and> i < s \<longrightarrow>
           y ! n ! i =
             spec_linear (fc_out att)
               (concat (map (\<lambda>h. map (\<lambda>d. \<Sum>j<s.
                                  spec_weight att (x ! n) h i j *
                                  spec_head (nat (head_dim att)) h
                                    (spec_linear (value' att) (x ! n ! j)) ! d)
                                [0..<nat (head_dim att)])
                          [0..<nat (num_heads att)]))) \<and>
        (\<forall>n h i j. n < b \<longrightarrow>
           spec_weight att (x ! n) h i j =
             exp (spec_score att (x ! n) h i j) /
               (\<Sum>k<s. exp (spec_score att (x ! n) h i k)))) \<and>
     (\<exists>x0 xL. embed_positional m t = Inr x0 \<and> apply_layers (layers m) x0 = Inr xL \<and>
        is_tensor3 b' s' E' xL \<and>
        CustomTransformer_forward m t =
          Inr (map (\<lambda>xb. spec_logits (fc m) (spec_mean_pool E' xb)) xL) \<and>
        (\<forall>n d. n < b' \<and> d < E' \<and> 0 < s' \<longrightarrow>
           spec_mean_pool E' (xL ! n) ! d = Some ((\<Sum>i<s'. xL ! n ! i ! d) / real s'))) \<and>
     SmilesDataset_getitem (SmilesDataset_init [py_str ''C''] [0] 2) 0 = Inr ([67, 0], 0) \<and>
     is_mat 1 2 [[67, 0 :: int]] \<and> is_mat 1 2 [[67, 1 :: int]] \<and>
     [[67, 0 :: int]] ! 0 ! 0 = [[67, 1]] ! 0 ! 0 \<and>
     embed_positional padded_model [[67, 0]] = Inr [[[0, 0], [9 / 1000, 0]]] \<and>
     embed_positional padded_model [[67, 1]] = Inr [[[0, 0], [0, 0]]] \<and>
     apply_layers (layers padded_model) [[[0, 0], [9 / 1000, 0]]]
       = Inr [[[- (9 / 11), 9 / 11], [0, 0]]] \<and>
     apply_layers (layers padded_model) [[[0, 0], [0, 0]]] = Inr [[[0, 0], [0, 0]]] \<and>
     CustomTransformer_forward padded_model [[67, 0]]
       = Inr [[Some (- (9 / 22)), Some (9 / 22)]] \<and>
     CustomTransformer_forward padded_model [[67, 1]] = Inr [[Some 0, Some 0]] \<and>
     CustomTransformer_forward padded_model [[67, 0]]
       \<noteq> CustomTransformer_forward padded_model [[67, 1]] \<and>
     CustomTransformer_forward padded_model [[67]] = Inr [[Some 0, Some 0]] \<and>
     CustomTransformer_forward padded_model [[67]]
       \<noteq> CustomTransformer_forward padded_model [[67, 0]]"
proof -
  note a = attention_sums_over_all_positions [OF assms(1,2,3)]
  note p = forward_pools_all_positions [OF assms(4,5,6,7,8)]
  have m1: "is_mat 1 2 [[67, 0 :: int]]" by (simp add: is_mat_def)
  have m2: "is_mat 1 2 [[67, 1 :: int]]" by (simp add: is_mat_def)
  have pre: "[[67, 0 :: int]] ! 0 ! 0 = [[67, 1]] ! 0 ! 0" by simp
  have l1: "apply_layers (layers padded_model) [[[0, 0], [9 / 1000, 0]]]
       = Inr [[[- (9 / 11), 9 / 11], [0, 0]]]"
    unfolding layers_padded_model by (simp add: example_block_run)
  have l2: "apply_layers (layers padded_model) [[[0, 0], [0, 0]]] = Inr [[[0, 0], [0, 0]]]"
    unfolding layers_padded_model by (simp add: example_block_run_zero)
  have d1: "CustomTransformer_forward padded_model [[67, 0]]
       \<noteq> CustomTransformer_forward padded_model [[67, 1]]"
    unfolding padded_forward_padded padded_forward_changed by simp
  have d2: "CustomTransformer_forward padded_model [[67]]
       \<noteq> CustomTransformer_forward padded_model [[67, 0]]"
    unfolding padded_forward_padded padded_forward_single by simp
  show ?thesis
    using a p getitem_C_padded m1 m2 pre padded_embed_padded padded_embed_changed l1 l2
      padded_forward_padded padded_forward_changed d1 padded_forward_single d2
    by (intro conjI)
qed

text \<open>
  The theorem at the example attention module with the embedded sequence of \<open>[67, 0]\<close>, and at
  \<open>padded_model\<close> with the token sequence \<open>[67, 0]\<close>: the attention output of position 0 is a
  sum over both positions, and the first pooled entry is the sum over both positions of the
  block output, halved.
\<close>

theorem padding_content_changes_output_witness:
  "(\<exists>y. MultiHeadSelfAttention_forward example_attention [[[0, 0], [9 / 1000, 0]]] = Inr y \<and>
      y = [[[- (9 / 1000), 0], [- (9 / 1000), 0]]] \<and>
      y ! 0 ! 0 =
        spec_linear (fc_out example_attention)
          (concat (map (\<lambda>h. map (\<lambda>d. \<Sum>j<2.
                             spec_weight example_attention ([[[0, 0], [9 / 1000, 0]]] ! 0) h 0 j *
                             spec_head (nat (head_dim example_attention)) h
                               (spec_linear (value' example_attention)
                                  ([[[0, 0], [9 / 1000, 0]]] ! 0 ! j)) ! d)
                           [0..<nat (head_dim example_attention)])
                     [0..<nat (num_heads example_attention)]))) \<and>
   (\<exists>x0 xL. embed_positional padded_model [[67, 0]] = Inr x0 \<and>
      x0 = [[[0, 0], [9 / 1000, 0]]] \<and>
      apply_layers (layers padded_model) x0 = Inr xL \<and>
      xL = [[[- (9 / 11), 9 / 11], [0, 0]]] \<and>
      spec_mean_pool 2 (xL ! 0) ! 0 = Some ((\<Sum>i<2. xL ! 0 ! i ! 0) / real 2) \<and>
      CustomTransformer_forward padded_model [[67, 0]] =
        Inr (map (\<lambda>xb. spec_logits (fc padded_model) (spec_mean_pool 2 xb)) xL)) \<and>
   CustomTransformer_forward padded_model [[67, 0]]
     \<noteq> CustomTransformer_forward padded_model [[67, 1]]"
proof -
  have sh: "is_tensor3 1 2 2 [[[0, 0], [9 / 1000, 0 :: real]]]"
    by (simp add: is_tensor3_def is_mat_def)
  have hd: "list_all (\<lambda>blk. heads_divide (attention blk)) (layers padded_model)"
    using heads_divide_example_attention
    by (simp add: layers_padded_model attention_example_block)
  have t: "is_mat 1 2 [[67, 0 :: int]]" by (simp add: is_mat_def)
  have ids: "valid_ids 128 [[67, 0]]" by (simp add: valid_ids_def)
  have s: "(2::nat) \<le> 100" by simp
  note c = padding_content_changes_output
    [OF wf_example_attention heads_divide_example_attention sh wf_padded_model hd t s ids]
  from c [THEN conjunct1] obtain y where
    run: "MultiHeadSelfAttention_forward example_attention [[[0, 0], [9 / 1000, 0]]] = Inr y"
    and rows: "\<forall>n i. n < 1 \<and> i < 2 \<longrightarrow>
           y ! n ! i =
             spec_linear (fc_out example_attention)
               (concat (map (\<lambda>h. map (\<lambda>d. \<Sum>j<2.
                                  spec_weight example_attention
                                    ([[[0, 0], [9 / 1000, 0]]] ! n) h i j *
                                  spec_head (nat (head_dim example_attention)) h
                                    (spec_linear (value' example_attention)
                                       ([[[0, 0], [9 / 1000, 0]]] ! n ! j)) ! d)
                                [0..<nat (head_dim example_attention)])
                          [0..<nat (num_heads example_attention)]))"
    by blast
  have yv: "y = [[[- (9 / 1000), 0], [- (9 / 1000), 0]]]"
    using run unfolding example_attention_run by (simp only: sum.inject)
  have c0: "(0::nat) < 1 \<and> (0::nat) < 2" by simp
  have row: "y ! 0 ! 0 =
        spec_linear (fc_out example_attention)
          (concat (map (\<lambda>h. map (\<lambda>d. \<Sum>j<2.
                             spec_weight example_attention ([[[0, 0], [9 / 1000, 0]]] ! 0) h 0 j *
                             spec_head (nat (head_dim example_attention)) h
                               (spec_linear (value' example_attention)
                                  ([[[0, 0], [9 / 1000, 0]]] ! 0 ! j)) ! d)
                           [0..<nat (head_dim example_attention)])
                     [0..<nat (num_heads example_attention)]))"
    by (rule rows [rule_format, OF c0])
  have "MultiHeadSelfAttention_forward example_attention [[[0, 0], [9 / 1000, 0]]] = Inr y \<and>
      y = [[[- (9 / 1000), 0], [- (9 / 1000), 0]]] \<and>
      y ! 0 ! 0 =
        spec_linear (fc_out example_attention)
          (concat (map (\<lambda>h. map (\<lambda>d. \<Sum>j<2.
                             spec_weight example_attention ([[[0, 0], [9 / 1000, 0]]] ! 0) h 0 j *
                             spec_head (nat (head_dim example_attention)) h
                               (spec_linear (value' example_attention)
                                  ([[[0, 0], [9 / 1000, 0]]] ! 0 ! j)) ! d)
                           [0..<nat (head_dim example_attention)])
                     [0..<nat (num_heads example_attention)]))"
    using run yv row by (intro conjI)
  then have first: "\<exists>y.
      MultiHeadSelfAttention_forward example_attention [[[0, 0], [9 / 1000, 0]]] = Inr y \<and>
      y = [[[- (9 / 1000), 0], [- (9 / 1000), 0]]] \<and>
      y ! 0 ! 0 =
        spec_linear (fc_out example_attention)
          (concat (map (\<lambda>h. map (\<lambda>d. \<Sum>j<2.
                             spec_weight example_attention ([[[0, 0], [9 / 1000, 0]]] ! 0) h 0 j *
                             spec_head (nat (head_dim example_attention)) h
                               (spec_linear (value' example_attention)
                                  ([[[0, 0], [9 / 1000, 0]]] ! 0 ! j)) ! d)
                           [0..<nat (head_dim example_attention)])
                     [0..<nat (num_heads example_attention)]))"
    by (rule exI [where x = y])
  from c [THEN conjunct2, THEN conjunct1] obtain x0 xL where
    e: "embed_positional padded_model [[67, 0]] = Inr x0"
    and l: "apply_layers (layers padded_model) x0 = Inr xL"
    and f: "CustomTransformer_forward padded_model [[67, 0]] =
        Inr (map (\<lambda>xb. spec_logits (fc padded_model) (spec_mean_pool 2 xb)) xL)"
    and pool: "\<forall>n d. n < 1 \<and> d < 2 \<and> 0 < (2::nat) \<longrightarrow>
           spec_mean_pool 2 (xL ! n) ! d = Some ((\<Sum>i<2. xL ! n ! i ! d) / real 2)"
    by blast
  have x0v: "x0 = [[[0, 0], [9 / 1000, 0]]]"
    using e unfolding padded_embed_padded by (simp only: sum.inject)
  have "apply_layers (layers padded_model) [[[0, 0], [9 / 1000, 0]]]
       = Inr [[[- (9 / 11), 9 / 11], [0, 0]]]"
    using c [THEN conjunct2, THEN conjunct2] by (elim conjE)
  then have xLv: "xL = [[[- (9 / 11), 9 / 11], [0, 0]]]"
    using l unfolding x0v by (simp only: sum.inject)
  have c1: "(0::nat) < 1 \<and> (0::nat) < 2 \<and> 0 < (2::nat)" by simp
  have pv: "spec_mean_pool 2 (xL ! 0) ! 0 = Some ((\<Sum>i<2. xL ! 0 ! i ! 0) / real 2)"
    by (rule pool [rule_format, OF c1])
  have "embed_positional padded_model [[67, 0]] = Inr x0 \<and>
      x0 = [[[0, 0], [9 / 1000, 0]]] \<and>
      apply_layers (layers padded_model) x0 = Inr xL \<and>
      xL = [[[- (9 / 11), 9 / 11], [0, 0]]] \<and>
      spec_mean_pool 2 (xL ! 0) ! 0 = Some ((\<Sum>i<2. xL ! 0 ! i ! 0) / real 2) \<and>
      CustomTransformer_forward padded_model [[67, 0]] =
        Inr (map (\<lambda>xb. spec_logits (fc padded_model) (spec_mean_pool 2 xb)) xL)"
    using e x0v l xLv pv f by (intro conjI)
  then have second: "\<exists>x0 xL. embed_positional padded_model [[67, 0]] = Inr x0 \<and>
      x0 = [[[0, 0], [9 / 1000, 0]]] \<and>
      apply_layers (layers padded_model) x0 = Inr xL \<and>
      xL = [[[- (9 / 11), 9 / 11], [0, 0]]] \<and>
      spec_mean_pool 2 (xL ! 0) ! 0 = Some ((\<Sum>i<2. xL ! 0 ! i ! 0) / real 2) \<and>
      CustomTransformer_forward padded_model [[67, 0]] =
        Inr (map (\<lambda>xb. spec_logits (fc padded_model) (spec_mean_pool 2 xb)) xL)"
    apply -
    apply (rule exI [where x = x0])
    apply (rule exI [where x = xL])
    apply assumption
    done
  have third: "CustomTransformer_forward padded_model [[67, 0]]
     \<noteq> CustomTransformer_forward padded_model [[67, 1]]"
    using c [THEN conjunct2, THEN conjunct2] by (elim conjE)
  from first second third show ?thesis by (intro conjI)
qed

end
